theory Spec2Isabelle
  imports Complex_Main
begin

section \<open>Data model (types.ts)\<close>

text \<open>
  JavaScript numbers are modelled as mathematical reals: rounding, signed zeros, NaN and
  the infinities of IEEE doubles are outside the model.  The one place where the source
  can leave the finite numbers on finite inputs, a division whose divisor is zero, is
  made explicit where a claim depends on it (\<open>solveIK\<close> returns \<open>None\<close> there).
\<close>

datatype HoldType = jug | crimp | sloper | pocket | volume | start | finish

record Point =
  x :: real
  y :: real

text \<open>
  A limb is \<^verbatim>\<open>AttachedLimb | Point | null\<close>: \<open>Detached\<close> is \<^verbatim>\<open>null\<close>,
  \<open>Smearing p\<close> a plain point, \<open>Attached p h\<close> a point with a \<^verbatim>\<open>holdId\<close>.
\<close>

datatype LimbState = Detached | Smearing Point | Attached Point string

record Hold =
  hold_id :: string
  hold_x :: real
  hold_y :: real
  hold_type :: HoldType
  rotation :: real

record Level =
  holds :: "Hold list"
  angle :: real
  height :: "real option"

datatype Limb = leftHand | rightHand | leftFoot | rightFoot

record Limbs =
  leftHand_of :: LimbState
  rightHand_of :: LimbState
  leftFoot_of :: LimbState
  rightFoot_of :: LimbState

record ArmPump =
  left :: real
  right :: real

datatype Status = idle | climbing | falling | topped

record ClimberState =
  limbs :: Limbs
  stamina :: real
  armPump :: ArmPump
  chalk :: real
  balance :: real
  status :: Status
  centerOfMass :: Point
  velocity :: Point

text \<open>\<^verbatim>\<open>state.limbs[limb]\<close> and \<^verbatim>\<open>{...limbs, [limb]: val}\<close>.\<close>

fun getLimb :: "Limbs \<Rightarrow> Limb \<Rightarrow> LimbState" where
  "getLimb ls leftHand = leftHand_of ls"
| "getLimb ls rightHand = rightHand_of ls"
| "getLimb ls leftFoot = leftFoot_of ls"
| "getLimb ls rightFoot = rightFoot_of ls"

fun setLimb :: "Limbs \<Rightarrow> Limb \<Rightarrow> LimbState \<Rightarrow> Limbs" where
  "setLimb ls leftHand v = ls\<lparr>leftHand_of := v\<rparr>"
| "setLimb ls rightHand v = ls\<lparr>rightHand_of := v\<rparr>"
| "setLimb ls leftFoot v = ls\<lparr>leftFoot_of := v\<rparr>"
| "setLimb ls rightFoot v = ls\<lparr>rightFoot_of := v\<rparr>"

definition allDetached :: Limbs where
  "allDetached = \<lparr>leftHand_of = Detached, rightHand_of = Detached,
                   leftFoot_of = Detached, rightFoot_of = Detached\<rparr>"

text \<open>The coordinates of a non-null limb (\<^verbatim>\<open>val.x\<close>, \<^verbatim>\<open>val.y\<close>); a null limb has none.\<close>

fun pointOf :: "LimbState \<Rightarrow> Point option" where
  "pointOf Detached = None"
| "pointOf (Smearing p) = Some p"
| "pointOf (Attached p h) = Some p"

fun isAttached :: "LimbState \<Rightarrow> bool" where
  "isAttached (Attached p h) = True"
| "isAttached v = False"

fun isSmearing :: "LimbState \<Rightarrow> bool" where
  "isSmearing (Smearing p) = True"
| "isSmearing v = False"

text \<open>\<^verbatim>\<open>Object.values(state.limbs)\<close>, in key order.\<close>

definition limbValues :: "Limbs \<Rightarrow> LimbState list" where
  "limbValues ls = [leftHand_of ls, rightHand_of ls, leftFoot_of ls, rightFoot_of ls]"

text \<open>\<^verbatim>\<open>vals.filter(l => l !== null)\<close>.\<close>

definition nonNull :: "LimbState list \<Rightarrow> LimbState list" where
  "nonNull vals = filter (\<lambda>l. l \<noteq> Detached) vals"

text \<open>\<^verbatim>\<open>holds.find(h => h.id === holdId)\<close>.\<close>

definition findHold :: "Hold list \<Rightarrow> string \<Rightarrow> Hold option" where
  "findHold hs hid = find (\<lambda>h. hold_id h = hid) hs"

section \<open>Constants (constants.ts)\<close>

definition INITIAL_STAMINA :: real where "INITIAL_STAMINA = 100"
definition INITIAL_CHALK :: real where "INITIAL_CHALK = 100"
definition climberWeightKg :: real where "climberWeightKg = 65"

definition torsoHeight :: real where "torsoHeight = 11"
definition shoulderWidth :: real where "shoulderWidth = 6.5"
definition hipWidth :: real where "hipWidth = 3.5"
definition armUpper :: real where "armUpper = 6.5"
definition armLower :: real where "armLower = 6.5"
definition legUpper :: real where "legUpper = 8"
definition legLower :: real where "legLower = 8"

definition MAX_REACH_hand :: real where "MAX_REACH_hand = armUpper + armLower"
definition MAX_REACH_foot :: real where "MAX_REACH_foot = legUpper + legLower"

fun HOLD_STAMINA_DRAIN :: "HoldType \<Rightarrow> real" where
  "HOLD_STAMINA_DRAIN jug = 0.005"
| "HOLD_STAMINA_DRAIN start = 0"
| "HOLD_STAMINA_DRAIN finish = 0.005"
| "HOLD_STAMINA_DRAIN volume = 0.01"
| "HOLD_STAMINA_DRAIN pocket = 0.04"
| "HOLD_STAMINA_DRAIN sloper = 0.05"
| "HOLD_STAMINA_DRAIN crimp = 0.1"

fun HOLD_FRICTION :: "HoldType \<Rightarrow> real" where
  "HOLD_FRICTION jug = 1"
| "HOLD_FRICTION start = 1"
| "HOLD_FRICTION finish = 1"
| "HOLD_FRICTION crimp = 0.9"
| "HOLD_FRICTION pocket = 0.9"
| "HOLD_FRICTION volume = 0.3"
| "HOLD_FRICTION sloper = 0.2"

text \<open>The fixed anchor offsets of the four limbs and their reach, as every caller writes them.\<close>

fun anchorOffset :: "Limb \<Rightarrow> Point" where
  "anchorOffset leftHand = \<lparr>x = - shoulderWidth / 2, y = - torsoHeight * 0.85\<rparr>"
| "anchorOffset rightHand = \<lparr>x = shoulderWidth / 2, y = - torsoHeight * 0.85\<rparr>"
| "anchorOffset leftFoot = \<lparr>x = - hipWidth / 2, y = 1.5\<rparr>"
| "anchorOffset rightFoot = \<lparr>x = hipWidth / 2, y = 1.5\<rparr>"

fun maxReach :: "Limb \<Rightarrow> real" where
  "maxReach leftHand = MAX_REACH_hand"
| "maxReach rightHand = MAX_REACH_hand"
| "maxReach leftFoot = MAX_REACH_foot"
| "maxReach rightFoot = MAX_REACH_foot"

section \<open>Geometry helpers (gameUtils)\<close>

definition calculateDistance :: "Point \<Rightarrow> Point \<Rightarrow> real" where
  "calculateDistance p1 p2 = sqrt ((x p2 - x p1) ^ 2 + (y p2 - y p1) ^ 2)"

text \<open>
  \<^verbatim>\<open>Math.atan2(dy, dx)\<close> on finite arguments (the zero of the model is the positive zero).
\<close>

definition atan2 :: "real \<Rightarrow> real \<Rightarrow> real" where
  "atan2 dy dx =
     (if 0 < dx then arctan (dy / dx)
      else if dx < 0 then (if 0 \<le> dy then arctan (dy / dx) + pi else arctan (dy / dx) - pi)
      else if 0 < dy then pi / 2
      else if dy < 0 then - pi / 2
      else 0)"

text \<open>The remainder operator \<^verbatim>\<open>a % b\<close>: the quotient is truncated towards zero.\<close>

definition jsRem :: "real \<Rightarrow> real \<Rightarrow> real" where
  "jsRem a b =
     (let q = a / b in a - b * of_int (if 0 \<le> q then \<lfloor>q\<rfloor> else \<lceil>q\<rceil>))"

definition getAngle :: "Point \<Rightarrow> Point \<Rightarrow> real" where
  "getAngle p1 p2 =
     (let dy = y p2 - y p1;
          dx = x p2 - x p1;
          theta = atan2 dy dx * (180 / pi)
      in if theta < 0 then 360 + theta else theta)"

definition getAngleDiff :: "real \<Rightarrow> real \<Rightarrow> real" where
  "getAngleDiff a b = (let diff = \<bar>a - b\<bar> in if diff > 180 then 360 - diff else diff)"

section \<open>Body constraint solver\<close>

definition applyConstraint :: "Point \<Rightarrow> LimbState \<Rightarrow> real \<Rightarrow> Point \<Rightarrow> real \<Rightarrow> Point" where
  "applyConstraint currentCOM val maxLen offsetFromCOM minLen =
     (case pointOf val of
        None \<Rightarrow> currentCOM
      | Some v \<Rightarrow>
          let anchorX = x currentCOM + x offsetFromCOM;
              anchorY = y currentCOM + y offsetFromCOM;
              dx = x v - anchorX;
              dy = y v - anchorY;
              dist = sqrt (dx * dx + dy * dy)
          in if dist > maxLen then
               (let scale = maxLen / dist;
                    targetAnchorX = x v - dx * scale;
                    targetAnchorY = y v - dy * scale
                in \<lparr>x = targetAnchorX - x offsetFromCOM, y = targetAnchorY - y offsetFromCOM\<rparr>)
             else if dist < minLen \<and> dist > 0.1 then
               (let scale = minLen / dist;
                    targetAnchorX = x v - dx * scale;
                    targetAnchorY = y v - dy * scale
                in \<lparr>x = targetAnchorX - x offsetFromCOM, y = targetAnchorY - y offsetFromCOM\<rparr>)
             else currentCOM)"

definition ITERATIONS :: nat where "ITERATIONS = 4"
definition HAND_REACH :: real where "HAND_REACH = MAX_REACH_hand * 0.99"
definition FOOT_REACH :: real where "FOOT_REACH = MAX_REACH_foot * 0.99"
definition MIN_COMPRESSION :: real where "MIN_COMPRESSION = 3.0"

text \<open>One pass of the relaxation loop: the body of the \<^verbatim>\<open>for\<close>.\<close>

definition constrainPass :: "Limbs \<Rightarrow> Point \<Rightarrow> Point" where
  "constrainPass ls result =
     (let r1 = (if leftHand_of ls \<noteq> Detached
                then applyConstraint result (leftHand_of ls) HAND_REACH
                       \<lparr>x = - shoulderWidth / 2, y = - torsoHeight * 0.85\<rparr> MIN_COMPRESSION
                else result);
          r2 = (if rightHand_of ls \<noteq> Detached
                then applyConstraint r1 (rightHand_of ls) HAND_REACH
                       \<lparr>x = shoulderWidth / 2, y = - torsoHeight * 0.85\<rparr> MIN_COMPRESSION
                else r1);
          r3 = (if leftFoot_of ls \<noteq> Detached
                then applyConstraint r2 (leftFoot_of ls) FOOT_REACH
                       \<lparr>x = - hipWidth / 2, y = 1.5\<rparr> MIN_COMPRESSION
                else r2);
          r4 = (if rightFoot_of ls \<noteq> Detached
                then applyConstraint r3 (rightFoot_of ls) FOOT_REACH
                       \<lparr>x = hipWidth / 2, y = 1.5\<rparr> MIN_COMPRESSION
                else r3)
      in r4)"

definition constrainBodyPosition :: "Point \<Rightarrow> Limbs \<Rightarrow> Hold list \<Rightarrow> Point" where
  "constrainBodyPosition proposedCOM ls hs = (constrainPass ls ^^ ITERATIONS) proposedCOM"

section \<open>Two-bone inverse kinematics\<close>

text \<open>
  The guard \<^verbatim>\<open>!p1 || !p2 || isNaN(p1.x) || isNaN(p2.x)\<close> never fires on the points of
  the model (they are objects with real coordinates), so it has no branch here.  A division
  by zero, which in the source yields NaN or an infinity, is the value \<open>None\<close>.
\<close>

definition solveIK :: "Point \<Rightarrow> Point \<Rightarrow> real \<Rightarrow> real \<Rightarrow> bool \<Rightarrow> Point option" where
  "solveIK p1 p2 length1 length2 bendRight =
     (let dist = calculateDistance p1 p2 in
      if dist \<ge> length1 + length2 - 0.1 then
        (if length1 + length2 = 0 then None
         else let ratio = length1 / (length1 + length2)
              in Some \<lparr>x = x p1 + (x p2 - x p1) * ratio, y = y p1 + (y p2 - y p1) * ratio\<rparr>)
      else
        (let safeDist = max dist 1.0 in
         if 2 * safeDist * length1 = 0 then None
         else
           let cosAngle = max (-1) (min 1
                 ((safeDist * safeDist + length1 * length1 - length2 * length2)
                    / (2 * safeDist * length1)));
               ang = arccos cosAngle;
               baseAngle = atan2 (y p2 - y p1) (x p2 - x p1);
               totalAngle = (if bendRight then baseAngle + ang else baseAngle - ang)
           in Some \<lparr>x = x p1 + cos totalAngle * length1, y = y p1 + sin totalAngle * length1\<rparr>))"

section \<open>Fatigue model\<close>

record DrainResult =
  core :: real
  leftPump :: real
  rightPump :: real

text \<open>
  The closure \<^verbatim>\<open>calculateArmPump\<close> of \<open>calculateTickDrain\<close>; the variables it captures
  are parameters, and its unused second parameter \<^verbatim>\<open>currentPump\<close> is kept.
  \<^verbatim>\<open>holdDrains[hold.type] || 0.05\<close> replaces a zero entry by 0.05.
\<close>

definition calculateArmPump ::
  "ClimberState \<Rightarrow> Hold list \<Rightarrow> (HoldType \<Rightarrow> real) \<Rightarrow> real \<Rightarrow> bool \<Rightarrow> nat
     \<Rightarrow> Limb \<Rightarrow> real \<Rightarrow> real" where
  "calculateArmPump state hs holdDrains wallAngle realismMode feetAttached limb currentPump =
     (case getLimb (limbs state) limb of
        Attached p hid \<Rightarrow>
          (case findHold hs hid of
             None \<Rightarrow> 0
           | Some hold \<Rightarrow>
               let difficulty0 = (if holdDrains (hold_type hold) = 0 then 0.05
                                  else holdDrains (hold_type hold));
                   difficulty =
                     (if realismMode then
                        (let handPos = \<lparr>x = x p, y = y p\<rparr>;
                             bodyPos = \<lparr>x = x (centerOfMass state), y = y (centerOfMass state) - 8\<rparr>;
                             pullAngle = getAngle handPos bodyPos;
                             idealAngle = (if hold_type hold = crimp \<or> hold_type hold = sloper
                                           then jsRem (rotation hold + 90) 360 else 90);
                             diff = getAngleDiff pullAngle idealAngle
                         in if diff > 45 then difficulty0 * (1.5 + diff / 45) else difficulty0)
                      else difficulty0)
               in if (hold_type hold = jug \<or> hold_type hold = start \<or> hold_type hold = finish)
                     \<and> balance state < 40 \<and> wallAngle < 30
                  then - 0.03
                  else
                    (let overhangMult = (if wallAngle > 0 then 1 + wallAngle / 30 else 1.0);
                         footSupportMult = (if feetAttached = 0 then 2.5 else 1.0)
                     in difficulty * overhangMult * footSupportMult * 0.8))
      | _ \<Rightarrow> - 0.05)"

definition calculateTickDrain ::
  "ClimberState \<Rightarrow> Hold list \<Rightarrow> (HoldType \<Rightarrow> real) \<Rightarrow> real \<Rightarrow> bool \<Rightarrow> DrainResult" where
  "calculateTickDrain state hs holdDrains wallAngle realismMode =
     (let activeLimbsCount = length (nonNull (limbValues (limbs state))) in
      if activeLimbsCount = 0 then \<lparr>core = 0, leftPump = - 0.1, rightPump = - 0.1\<rparr>
      else
        let loadFactor = climberWeightKg / max 1 (real activeLimbsCount);
            instabilityCost = (balance state / 100) * (if realismMode then 0.05 else 0.03);
            anglePenalty = (if wallAngle > 0 then (wallAngle / 45) * 0.06 else 0);
            coreDrain1 = 0.005 + anglePenalty + instabilityCost;
            feetAttached = length (nonNull [leftFoot_of (limbs state), rightFoot_of (limbs state)]);
            coreDrain = (if feetAttached = 0 \<and> wallAngle > 0
                         then coreDrain1 + (if realismMode then 0.25 else 0.15)
                         else coreDrain1);
            leftPumpDelta = calculateArmPump state hs holdDrains wallAngle realismMode
                              feetAttached leftHand (left (armPump state));
            rightPumpDelta = calculateArmPump state hs holdDrains wallAngle realismMode
                               feetAttached rightHand (right (armPump state))
        in \<lparr>core = coreDrain, leftPump = leftPumpDelta, rightPump = rightPumpDelta\<rparr>)"

section \<open>Friction model\<close>

text \<open>The chalk term, \<^verbatim>\<open>const chalkPenalty\<close>.\<close>

definition chalkPenalty :: "ClimberState \<Rightarrow> bool \<Rightarrow> real" where
  "chalkPenalty state realismMode =
     max 0 (30 - chalk state) * (if realismMode then 0.8 else 0.5)"

text \<open>What the callback of \<^verbatim>\<open>feet.forEach\<close> adds to \<^verbatim>\<open>totalPenalty\<close> for one foot.\<close>

definition footPenalty :: "Hold list \<Rightarrow> real \<Rightarrow> bool \<Rightarrow> LimbState \<Rightarrow> real" where
  "footPenalty hs wallAngle realismMode foot =
     (let rad = wallAngle * (pi / 180);
          normalForceRatio = cos rad
      in case foot of
           Attached p hid \<Rightarrow>
             (case findHold hs hid of
                Some hold \<Rightarrow>
                  let friction = HOLD_FRICTION (hold_type hold)
                                   * (if wallAngle < 0 then 1.2 else normalForceRatio)
                  in if friction < 0.3 then (0.3 - friction) * 50 else 0
              | None \<Rightarrow> 0)
         | Smearing p \<Rightarrow>
             (if wallAngle < 0 then 2
              else if wallAngle \<le> 10 then 10
              else (if realismMode then 45 else 30) + wallAngle * 1.5)
         | Detached \<Rightarrow> 0)"

text \<open>The \<^verbatim>\<open>switch (hold.type)\<close>: the ideal pull angle and the tolerance of a hold.\<close>

fun pullWindow :: "Hold \<Rightarrow> real \<Rightarrow> real \<times> real" where
  "pullWindow hold strictness =
     (case hold_type hold of
        jug \<Rightarrow> (jsRem (rotation hold + 90) 360, 160)
      | crimp \<Rightarrow> (jsRem (rotation hold + 90) 360, 60 * strictness)
      | sloper \<Rightarrow> (jsRem (rotation hold + 90) 360, 40 * strictness)
      | pocket \<Rightarrow> (jsRem (rotation hold + 90) 360, 70 * strictness)
      | volume \<Rightarrow> (jsRem (rotation hold + 90) 360, 80 * strictness)
      | start \<Rightarrow> (90, 180)
      | finish \<Rightarrow> (90, 180))"

text \<open>What the callback of \<^verbatim>\<open>hands.forEach\<close> adds to \<^verbatim>\<open>totalPenalty\<close> for one hand.\<close>

definition handPenalty :: "ClimberState \<Rightarrow> Hold list \<Rightarrow> bool \<Rightarrow> LimbState \<Rightarrow> real" where
  "handPenalty state hs realismMode hand =
     (case hand of
        Attached p hid \<Rightarrow>
          (case findHold hs hid of
             None \<Rightarrow> 0
           | Some hold \<Rightarrow>
               let handPos = \<lparr>x = x p, y = y p\<rparr>;
                   bodyPullPoint = \<lparr>x = x (centerOfMass state), y = y (centerOfMass state) - 10\<rparr>;
                   pullAngle = getAngle handPos bodyPullPoint;
                   strictness = (if realismMode then 0.5 else 1.0);
                   idealPullAngle = fst (pullWindow hold strictness);
                   tolerance = snd (pullWindow hold strictness);
                   diff = getAngleDiff pullAngle idealPullAngle
               in if diff > tolerance then
                    (let errorFactor = (diff - tolerance) / (180 - tolerance);
                         penaltyMult = (if realismMode then 80 else 40)
                     in errorFactor * penaltyMult)
                  else 0)
      | _ \<Rightarrow> 0)"

definition getFrictionPenalty :: "ClimberState \<Rightarrow> Hold list \<Rightarrow> real \<Rightarrow> bool \<Rightarrow> real" where
  "getFrictionPenalty state hs wallAngle realismMode =
     (let total0 = chalkPenalty state realismMode;
          feet = nonNull [leftFoot_of (limbs state), rightFoot_of (limbs state)];
          hands = nonNull [leftHand_of (limbs state), rightHand_of (limbs state)];
          total1 =
            (if length feet = 0 then
               (if length hands > 0 then
                  (let noFeetPenaltyBase = (if wallAngle < 0 then 150 else 30);
                       overhangCampusPenalty = max 0 (wallAngle - 10) * 0.8
                   in total0 + (noFeetPenaltyBase + overhangCampusPenalty))
                else total0)
             else foldl (\<lambda>t foot. t + footPenalty hs wallAngle realismMode foot) total0 feet);
          total2 = foldl (\<lambda>t hand. t + handPenalty state hs realismMode hand) total1 hands
      in max 0 total2)"

section \<open>Stability model\<close>

text \<open>\<^verbatim>\<open>l.x\<close> of the non-null limbs of a list.\<close>

definition limbXs :: "LimbState list \<Rightarrow> real list" where
  "limbXs vals = map x (List.map_filter pointOf vals)"

definition limbEntries :: "Limbs \<Rightarrow> (Limb \<times> LimbState) list" where
  "limbEntries ls = [(leftHand, leftHand_of ls), (rightHand, rightHand_of ls),
                     (leftFoot, leftFoot_of ls), (rightFoot, rightFoot_of ls)]"

definition BODY_WEIGHT :: real where "BODY_WEIGHT = 0.6"
definition LIMB_WEIGHT :: real where "LIMB_WEIGHT = 0.1"

text \<open>
  The callback of \<^verbatim>\<open>Object.entries(state.limbs).forEach\<close>: one limb's share of the
  system moment; \<open>comX\<close> is \<^verbatim>\<open>state.centerOfMass.x\<close>.
\<close>

definition momentStep :: "real \<Rightarrow> real \<times> real \<Rightarrow> Limb \<times> LimbState \<Rightarrow> real \<times> real" where
  "momentStep comX acc entry =
     (let systemMomentX = fst acc;
          totalWeight = snd acc;
          limbName = fst entry;
          val = snd entry;
          lx = (case pointOf val of
                  Some v \<Rightarrow> x v
                | None \<Rightarrow>
                    if limbName = leftHand \<or> limbName = rightHand
                    then comX + (if limbName = leftHand then - 6 else 6)
                    else comX)
      in (systemMomentX + lx * LIMB_WEIGHT, totalWeight + LIMB_WEIGHT))"

definition calculateStability :: "ClimberState \<Rightarrow> Hold list \<Rightarrow> real \<Rightarrow> bool \<Rightarrow> real" where
  "calculateStability state hs wallAngle realismMode =
     (let activeLimbs = limbXs (limbValues (limbs state)) in
      if length activeLimbs = 0 then 0
      else
        let velocityMag = sqrt (x (velocity state) ^ 2 + y (velocity state) ^ 2);
            dynamicFactor = 1 / (1 + velocityMag * 3);
            supportX = foldl (\<lambda>s lx. s + lx) 0 activeLimbs / real (length activeLimbs);
            acc = foldl (momentStep (x (centerOfMass state)))
                    (x (centerOfMass state) * BODY_WEIGHT, BODY_WEIGHT)
                    (limbEntries (limbs state));
            systemCOM_X = fst acc / snd acc;
            deviation0 = \<bar>systemCOM_X - supportX\<bar>;
            hands = limbXs [leftHand_of (limbs state), rightHand_of (limbs state)];
            feet = limbXs [leftFoot_of (limbs state), rightFoot_of (limbs state)];
            deviation1 =
              (if wallAngle > 0 \<and> length hands = 1 then
                 (let hand = hd hands;
                      footSpread = (if length feet > 0 then \<bar>hd feet - last feet\<bar> else 0);
                      isMovingSideways = (\<bar>x (velocity state)\<bar> > 0.1);
                      d = (if footSpread < 10 \<and> isMovingSideways
                           then deviation0 * (if realismMode then 4.0 else 3.0)
                           else deviation0);
                      swingDist = \<bar>hand - systemCOM_X\<bar>
                  in d + swingDist * (if realismMode then 2.0 else 1.5))
               else deviation0);
            deviation2 =
              (if wallAngle < 0 \<and> length feet > 0 then
                 (let avgFootX = foldl (\<lambda>s f. s + f) 0 feet / real (length feet);
                      slabDeviation = \<bar>systemCOM_X - avgFootX\<bar>
                  in (deviation1 * 0.5) + (slabDeviation * 2.5))
               else deviation1);
            deviation = deviation2 * dynamicFactor;
            lateralVelocity = \<bar>x (velocity state)\<bar>;
            swingPenalty = lateralVelocity * (if wallAngle > 0 then 25.0 else 10.0);
            frictionPenalty = getFrictionPenalty state hs wallAngle realismMode;
            score = frictionPenalty + swingPenalty + (deviation * 2.5)
        in min 100 (max 0 score))"

section \<open>The simulation tick (App)\<close>

text \<open>
  The tick is the updater that \<^verbatim>\<open>loop\<close> passes to \<^verbatim>\<open>setClimber\<close>.  Besides the climber
  it reads and writes two refs and one flag, which are fields of the simulation state here.
  Of a level only the fields the tick reads are kept.
\<close>

record Sim =
  climber :: ClimberState
  prevCOMRef :: Point
  staminaAccumulatorRef :: real
  isSlipping :: bool

definition getGroundY :: "Level \<Rightarrow> real" where
  "getGroundY lvl = (case height lvl of None \<Rightarrow> 100 | Some h \<Rightarrow> if h = 0 then 100 else h)"

definition getStartCom :: "Level \<Rightarrow> Point" where
  "getStartCom lvl = \<lparr>x = 50, y = getGroundY lvl - 14\<rparr>"

definition getStartLimbs :: "Level \<Rightarrow> Limbs" where
  "getStartLimbs lvl =
     \<lparr>leftHand_of = Detached, rightHand_of = Detached,
      leftFoot_of = Smearing \<lparr>x = 46, y = getGroundY lvl\<rparr>,
      rightFoot_of = Smearing \<lparr>x = 54, y = getGroundY lvl\<rparr>\<rparr>"

text \<open>The state that \<^verbatim>\<open>resetClimber\<close> and \<^verbatim>\<open>handleLevelChange\<close> install.\<close>

definition resetClimber :: "Level \<Rightarrow> Sim \<Rightarrow> Sim" where
  "resetClimber lvl sim =
     sim\<lparr>climber :=
            \<lparr>limbs = getStartLimbs lvl, stamina = INITIAL_STAMINA,
             armPump = \<lparr>left = 0, right = 0\<rparr>, chalk = INITIAL_CHALK, balance = 0,
             status = idle, centerOfMass = getStartCom lvl, velocity = \<lparr>x = 0, y = 0\<rparr>\<rparr>,
          prevCOMRef := getStartCom lvl,
          isSlipping := False\<rparr>"

text \<open>Section 0 of the tick, \<^verbatim>\<open>if (nextState.status === 'falling')\<close>.\<close>

definition fallingPhysics :: "Level \<Rightarrow> ClimberState \<Rightarrow> ClimberState" where
  "fallingPhysics lvl nextState =
     (let groundY = getGroundY lvl;
          ns = nextState\<lparr>limbs := allDetached\<rparr>;
          com = centerOfMass ns
      in if y com < groundY - 5 then
           (let cx = x com + x (velocity ns) * 0.95;
                cx1 = (if cx < 0 then 0 else cx);
                cx2 = (if cx1 > 100 then 100 else cx1)
            in ns\<lparr>centerOfMass := \<lparr>x = cx2, y = y com + 1.5\<rparr>\<rparr>)
         else
           ns\<lparr>status := idle,
              centerOfMass := com\<lparr>y := groundY - 14\<rparr>,
              limbs := getStartLimbs lvl,
              stamina := 50\<rparr>)"

text \<open>The branch \<^verbatim>\<open>if (isGrounded && !isUserDragging)\<close>; \<open>vx\<close>, \<open>vy\<close> are the tick's velocity.\<close>

definition groundedStep :: "Level \<Rightarrow> real \<Rightarrow> real \<Rightarrow> ClimberState \<Rightarrow> ClimberState" where
  "groundedStep lvl vx vy nextState =
     (let groundY = getGroundY lvl;
          ns1 = nextState\<lparr>balance := 0,
                          stamina := min 100 (stamina nextState + 0.5),
                          armPump := \<lparr>left = 0, right = 0\<rparr>\<rparr>;
          ns2 = (if status ns1 \<noteq> idle then ns1\<lparr>status := idle\<rparr> else ns1);
          cy1 = (if vx = 0 \<and> vy = 0
                 then y (centerOfMass ns2) * 0.9 + (groundY - 14) * 0.1
                 else y (centerOfMass ns2));
          cy2 = (if cy1 > groundY - 12 then groundY - 12 else cy1);
          com = (centerOfMass ns2)\<lparr>y := cy2\<rparr>;
          lf = (if leftFoot_of (limbs ns2) = Detached
                then Smearing \<lparr>x = x com - 4, y = groundY\<rparr> else leftFoot_of (limbs ns2));
          rf = (if rightFoot_of (limbs ns2) = Detached
                then Smearing \<lparr>x = x com + 4, y = groundY\<rparr> else rightFoot_of (limbs ns2))
      in ns2\<lparr>centerOfMass := com,
             limbs := (limbs ns2)\<lparr>leftFoot_of := lf, rightFoot_of := rf\<rparr>\<rparr>)"

text \<open>The closure \<^verbatim>\<open>checkAndDetach\<close>, with the variables it captures as parameters.\<close>

definition checkAndDetach :: "Point \<Rightarrow> Limbs \<Rightarrow> Limb \<Rightarrow> Point \<Rightarrow> real \<Rightarrow> Limbs" where
  "checkAndDetach proposedCOM nextLimbs limb anchorOff maxR =
     (case pointOf (getLimb nextLimbs limb) of
        None \<Rightarrow> nextLimbs
      | Some v \<Rightarrow>
          let anchor = \<lparr>x = x proposedCOM + x anchorOff, y = y proposedCOM + y anchorOff\<rparr>
          in if calculateDistance anchor v > maxR * 1.05
             then setLimb nextLimbs limb Detached
             else nextLimbs)"

text \<open>
  Section 1 of the tick, \<^verbatim>\<open>if (!isUserDragging)\<close>, in its three steps.  First the
  proposed center of mass: momentum, gravity adjusted by foot placement, muscle activation.
\<close>

definition proposeCOM :: "Level \<Rightarrow> real \<Rightarrow> real \<Rightarrow> ClimberState \<Rightarrow> Point" where
  "proposeCOM lvl vx vy nextState =
     (let com = centerOfMass nextState;
          activeFootLimbs = List.map_filter pointOf
             [leftFoot_of (limbs nextState), rightFoot_of (limbs nextState)];
          gravity1 =
            (if length activeFootLimbs > 0 then
               (let avgFootY = foldl (\<lambda>s l. s + y l) 0 activeFootLimbs
                                 / real (length activeFootLimbs)
                in if y com < avgFootY + 5 then
                     (let angleRad = angle lvl * (pi / 180)
                      in if angle lvl < 0 then 0.05 else 0.2 * sin angleRad)
                   else 0.2)
             else 0.2);
          handCount = length (filter isAttached
             [leftHand_of (limbs nextState), rightHand_of (limbs nextState)]);
          muscles = (handCount > 0 \<and> stamina nextState > 5 \<and> sqrt (vx * vx + vy * vy) < 1.0);
          muscleStrength = min 1.0 (stamina nextState / 20);
          gravity = (if muscles then gravity1 * (1 - (0.9 * muscleStrength)) else gravity1);
          damping = (if muscles then 0.92 * (1 - (0.15 * muscleStrength)) else 0.92)
      in \<lparr>x = x com + (x (velocity nextState) * damping),
          y = y com + (y (velocity nextState) * damping) + gravity\<rparr>)"

text \<open>Then the auto-detach: the four calls of \<^verbatim>\<open>checkAndDetach\<close> on a copy of the limbs.\<close>

definition autoDetach :: "Point \<Rightarrow> Limbs \<Rightarrow> Limbs" where
  "autoDetach proposedCOM nextLimbs =
     (let l1 = checkAndDetach proposedCOM nextLimbs leftHand
                 \<lparr>x = - shoulderWidth / 2, y = - torsoHeight * 0.85\<rparr> MAX_REACH_hand;
          l2 = checkAndDetach proposedCOM l1 rightHand
                 \<lparr>x = shoulderWidth / 2, y = - torsoHeight * 0.85\<rparr> MAX_REACH_hand;
          l3 = checkAndDetach proposedCOM l2 leftFoot
                 \<lparr>x = - hipWidth / 2, y = 1.5\<rparr> MAX_REACH_foot
      in checkAndDetach proposedCOM l3 rightFoot
           \<lparr>x = hipWidth / 2, y = 1.5\<rparr> MAX_REACH_foot)"

text \<open>Last the body is constrained to the remaining limbs.\<close>

definition climbingPhysics :: "Level \<Rightarrow> real \<Rightarrow> real \<Rightarrow> ClimberState \<Rightarrow> ClimberState" where
  "climbingPhysics lvl vx vy nextState =
     (let proposedCOM = proposeCOM lvl vx vy nextState;
          nextLimbs = autoDetach proposedCOM (limbs nextState)
      in nextState\<lparr>limbs := nextLimbs,
                   centerOfMass := constrainBodyPosition proposedCOM nextLimbs (holds lvl)\<rparr>)"

text \<open>
  The block \<^verbatim>\<open>if (!infiniteStamina) { ... }\<close> of the drain-interval evaluation: the drains
  are applied, a pumped-out hand lets go, and an exhausted climber falls.
\<close>

definition applyDrains :: "DrainResult \<Rightarrow> ClimberState \<Rightarrow> ClimberState" where
  "applyDrains drains nextState =
     (let ns3 = nextState\<lparr>stamina := max 0 (stamina nextState - core drains),
                 armPump := \<lparr>left = max 0 (min 100 (left (armPump nextState) + leftPump drains)),
                             right = max 0 (min 100 (right (armPump nextState) + rightPump drains))\<rparr>,
                 chalk := max 0 (chalk nextState - 0.02)\<rparr>;
          ns4 = (if left (armPump ns3) \<ge> 100
                 then ns3\<lparr>limbs := (limbs ns3)\<lparr>leftHand_of := Detached\<rparr>\<rparr> else ns3);
          ns5 = (if right (armPump ns4) \<ge> 100
                 then ns4\<lparr>limbs := (limbs ns4)\<lparr>rightHand_of := Detached\<rparr>\<rparr> else ns4)
      in if stamina ns5 \<le> 0
         then ns5\<lparr>status := falling, limbs := allDetached\<rparr> else ns5)"

text \<open>
  The body of \<^verbatim>\<open>if (staminaAccumulatorRef.current > 100)\<close>: the drain-interval evaluation.
  It returns the climber and the new value of the slipping flag.
\<close>

definition drainInterval ::
  "Level \<Rightarrow> bool \<Rightarrow> bool \<Rightarrow> ClimberState \<Rightarrow> ClimberState \<times> bool" where
  "drainInterval lvl infiniteStamina realismMode nextState =
     (let balanceScore = calculateStability nextState (holds lvl) (angle lvl) realismMode;
          ns1 = nextState\<lparr>balance := balanceScore\<rparr>;
          frictionPenalty = getFrictionPenalty ns1 (holds lvl) (angle lvl) realismMode;
          slipThreshold = (if realismMode then 15 else 20);
          slipping = (frictionPenalty > slipThreshold);
          ns2 = (if balanceScore \<ge> 100 \<and> \<not> infiniteStamina
                 then ns1\<lparr>balance := 100, status := falling, limbs := allDetached\<rparr>
                 else ns1);
          drains = calculateTickDrain ns2 (holds lvl) HOLD_STAMINA_DRAIN (angle lvl) realismMode
      in (if \<not> infiniteStamina then applyDrains drains ns2 else ns2, slipping))"

text \<open>Section 3 of the tick, the check for an unsupported fall.\<close>

definition checkFall :: "Level \<Rightarrow> bool \<Rightarrow> ClimberState \<Rightarrow> ClimberState" where
  "checkFall lvl isUserDragging nextState =
     (let groundY = getGroundY lvl;
          handCount = length (filter isAttached
             [leftHand_of (limbs nextState), rightHand_of (limbs nextState)])
      in if \<not> isUserDragging \<and> handCount = 0 \<and> y (centerOfMass nextState) < groundY - 18 then
           (let ns1 = nextState\<lparr>centerOfMass :=
                         (centerOfMass nextState)\<lparr>y := y (centerOfMass nextState) + 1.0\<rparr>\<rparr>
            in if status ns1 = climbing
               then ns1\<lparr>status := falling, limbs := allDetached\<rparr>
               else ns1)
         else nextState)"

text \<open>
  The updater itself, for a clamped elapsed time \<open>safeDt\<close>.  The mode flags and the level,
  which the source reads from the enclosing component, are parameters.
\<close>

definition update :: "Level \<Rightarrow> bool \<Rightarrow> bool \<Rightarrow> bool \<Rightarrow> real \<Rightarrow> Sim \<Rightarrow> Sim" where
  "update lvl infiniteStamina realismMode isUserDragging safeDt sim =
     (let prev = climber sim;
          groundY = getGroundY lvl;
          vx = (x (centerOfMass prev) - x (prevCOMRef sim)) * (16 / safeDt);
          vy = (y (centerOfMass prev) - y (prevCOMRef sim)) * (16 / safeDt);
          nextState = prev\<lparr>velocity := \<lparr>x = vx, y = vy\<rparr>\<rparr>;
          sim1 = sim\<lparr>prevCOMRef := centerOfMass prev\<rparr>
      in if status nextState = falling then
           sim1\<lparr>climber := fallingPhysics lvl nextState\<rparr>
         else if y (centerOfMass nextState) \<ge> groundY - 16 \<and> \<not> isUserDragging then
           sim1\<lparr>climber := groundedStep lvl vx vy nextState, isSlipping := False\<rparr>
         else
           (let ns1 = (if \<not> isUserDragging then climbingPhysics lvl vx vy nextState
                       else nextState);
                sim2 =
                  (if status ns1 = climbing \<and> \<not> isUserDragging then
                     (let acc = staminaAccumulatorRef sim1 + safeDt
                      in if acc > 100 then
                           (let r = drainInterval lvl infiniteStamina realismMode ns1
                            in sim1\<lparr>climber := fst r, staminaAccumulatorRef := 0,
                                    isSlipping := snd r\<rparr>)
                         else sim1\<lparr>climber := ns1, staminaAccumulatorRef := acc\<rparr>)
                   else sim1\<lparr>climber := ns1\<lparr>balance := 0\<rparr>, isSlipping := False\<rparr>)
            in sim2\<lparr>climber := checkFall lvl isUserDragging (climber sim2)\<rparr>))"

text \<open>
  One call of \<^verbatim>\<open>loop\<close> after \<open>dt\<close> milliseconds: the elapsed time is clamped to 50, and
  the state is updated only when it is positive.
\<close>

definition tick :: "Level \<Rightarrow> bool \<Rightarrow> bool \<Rightarrow> bool \<Rightarrow> real \<Rightarrow> Sim \<Rightarrow> Sim" where
  "tick lvl infiniteStamina realismMode isUserDragging dt sim =
     (let safeDt = min dt 50
      in if safeDt > 0 then update lvl infiniteStamina realismMode isUserDragging safeDt sim
         else sim)"

section \<open>External events (App)\<close>

definition handlePlaceLimb :: "Level \<Rightarrow> LimbState \<Rightarrow> Limb \<Rightarrow> ClimberState \<Rightarrow> ClimberState" where
  "handlePlaceLimb lvl val limb prev =
     (let nextLimbs = setLimb (limbs prev) limb val;
          lhVal = (if limb = leftHand then val else leftHand_of nextLimbs);
          rhVal = (if limb = rightHand then val else rightHand_of nextLimbs);
          status1 =
            (case (lhVal, rhVal) of
               (Attached lp lid, Attached rp rid) \<Rightarrow>
                 (if map_option hold_type (findHold (holds lvl) lid) = Some finish
                     \<and> map_option hold_type (findHold (holds lvl) rid) = Some finish
                  then topped else status prev)
             | _ \<Rightarrow> status prev);
          status2 = (if status1 = idle \<and> (isAttached val \<or> val \<noteq> Detached)
                     then climbing else status1)
      in prev\<lparr>limbs := nextLimbs, status := status2\<rparr>)"

definition handleUpdateCOM :: "Point \<Rightarrow> ClimberState \<Rightarrow> ClimberState" where
  "handleUpdateCOM newCOM prev = prev\<lparr>centerOfMass := newCOM\<rparr>"

text \<open>The key handler for \<^verbatim>\<open>'c'\<close>: it acts only while the status is climbing.\<close>

definition chalkUp :: "ClimberState \<Rightarrow> ClimberState" where
  "chalkUp prev =
     (if status prev = climbing then
        (if chalk prev \<ge> 100 then prev
         else prev\<lparr>chalk := min 100 (chalk prev + 5), stamina := max 0 (stamina prev - 1)\<rparr>)
      else prev)"

section \<open>Auxiliary definitions for the proofs\<close>

text \<open>
  Everything that \<open>getFrictionPenalty\<close> adds to \<^verbatim>\<open>totalPenalty\<close> after the chalk term:
  the campusing or per-foot terms and the per-hand terms.
\<close>

definition frictionRest :: "ClimberState \<Rightarrow> Hold list \<Rightarrow> real \<Rightarrow> bool \<Rightarrow> real" where
  "frictionRest state hs wallAngle realismMode =
     (let feet = nonNull [leftFoot_of (limbs state), rightFoot_of (limbs state)];
          hands = nonNull [leftHand_of (limbs state), rightHand_of (limbs state)]
      in (if length feet = 0 then
            (if length hands > 0
             then (if wallAngle < 0 then 150 else 30) + max 0 (wallAngle - 10) * 0.8
             else 0)
          else sum_list (map (footPenalty hs wallAngle realismMode) feet))
         + sum_list (map (handPenalty state hs realismMode) hands))"

text \<open>The anchor of a limb for a given center of mass: the center of mass plus the fixed offset.\<close>

definition limbAnchor :: "Point \<Rightarrow> Limb \<Rightarrow> Point" where
  "limbAnchor com limb = \<lparr>x = x com + x (anchorOffset limb), y = y com + y (anchorOffset limb)\<rparr>"

text \<open>The reach that \<open>constrainPass\<close> passes to \<open>applyConstraint\<close> for each limb.\<close>

fun solverReach :: "Limb \<Rightarrow> real" where
  "solverReach leftHand = HAND_REACH"
| "solverReach rightHand = HAND_REACH"
| "solverReach leftFoot = FOOT_REACH"
| "solverReach rightFoot = FOOT_REACH"

text \<open>The limbs that a pass of the solver treats after a given limb.\<close>

fun laterLimbs :: "Limb \<Rightarrow> Limb list" where
  "laterLimbs leftHand = [rightHand, leftFoot, rightFoot]"
| "laterLimbs rightHand = [leftFoot, rightFoot]"
| "laterLimbs leftFoot = [rightFoot]"
| "laterLimbs rightFoot = []"

text \<open>Example inputs: two hands on holds 100 units apart, and a hand on a hold that is gone.\<close>

definition stretched :: Limbs where
  "stretched = \<lparr>leftHand_of = Attached \<lparr>x = 0, y = 0\<rparr> ''a'',
                rightHand_of = Attached \<lparr>x = 100, y = 0\<rparr> ''b'',
                leftFoot_of = Detached, rightFoot_of = Detached\<rparr>"


text \<open>The climber at the start of a tick, with the velocity of this tick set.\<close>

definition withVelocity :: "real \<Rightarrow> Sim \<Rightarrow> ClimberState" where
  "withVelocity safeDt sim =
     (let prev = climber sim;
          vx = (x (centerOfMass prev) - x (prevCOMRef sim)) * (16 / safeDt);
          vy = (y (centerOfMass prev) - y (prevCOMRef sim)) * (16 / safeDt)
      in prev\<lparr>velocity := \<lparr>x = vx, y = vy\<rparr>\<rparr>)"

text \<open>
  The climber after sections 0 and 1 of a tick that is neither falling nor grounded nor dragged:
  the velocity is set and the climbing physics has run.  This is the state on which the
  drain-interval evaluation computes the stability score.
\<close>

definition physicsState :: "Level \<Rightarrow> real \<Rightarrow> Sim \<Rightarrow> ClimberState" where
  "physicsState lvl safeDt sim =
     (let prev = climber sim;
          vx = (x (centerOfMass prev) - x (prevCOMRef sim)) * (16 / safeDt);
          vy = (y (centerOfMass prev) - y (prevCOMRef sim)) * (16 / safeDt)
      in climbingPhysics lvl vx vy (prev\<lparr>velocity := \<lparr>x = vx, y = vy\<rparr>\<rparr>))"

text \<open>The five bounded fields of a climber are in range.\<close>

definition inRange :: "ClimberState \<Rightarrow> bool" where
  "inRange c \<longleftrightarrow>
     0 \<le> stamina c \<and> stamina c \<le> 100 \<and> 0 \<le> chalk c \<and> chalk c \<le> 100
     \<and> 0 \<le> left (armPump c) \<and> left (armPump c) \<le> 100
     \<and> 0 \<le> right (armPump c) \<and> right (armPump c) \<le> 100
     \<and> 0 \<le> balance c \<and> balance c \<le> 100"

text \<open>
  The states the application can reach: it starts from the reset state of some level, and
  each step is a tick or one of the external events, with any level, flags and arguments.
\<close>

definition initialSim :: "Level \<Rightarrow> Sim" where
  "initialSim lvl =
     \<lparr>climber =
        \<lparr>limbs = getStartLimbs lvl, stamina = INITIAL_STAMINA,
         armPump = \<lparr>left = 0, right = 0\<rparr>, chalk = INITIAL_CHALK, balance = 0,
         status = idle, centerOfMass = getStartCom lvl, velocity = \<lparr>x = 0, y = 0\<rparr>\<rparr>,
      prevCOMRef = getStartCom lvl, staminaAccumulatorRef = 0, isSlipping = False\<rparr>"

inductive reachable :: "Sim \<Rightarrow> bool" where
  r_init: "reachable (initialSim lvl)"
| r_tick: "reachable s \<Longrightarrow> reachable (tick lvl infiniteStamina realismMode isUserDragging dt s)"
| r_place: "reachable s \<Longrightarrow> reachable (s\<lparr>climber := handlePlaceLimb lvl val limb (climber s)\<rparr>)"
| r_com: "reachable s \<Longrightarrow> reachable (s\<lparr>climber := handleUpdateCOM newCOM (climber s)\<rparr>)"
| r_chalk: "reachable s \<Longrightarrow> reachable (s\<lparr>climber := chalkUp (climber s)\<rparr>)"
| r_reset: "reachable s \<Longrightarrow> reachable (resetClimber lvl s)"

text \<open>Example levels and states for the tick.\<close>

definition flatLevel :: Level where
  "flatLevel = \<lparr>holds = [], angle = 0, height = None\<rparr>"

definition fallingClimber :: ClimberState where
  "fallingClimber =
     \<lparr>limbs = allDetached, stamina = 60, armPump = \<lparr>left = 20, right = 20\<rparr>, chalk = 70,
      balance = 100, status = falling, centerOfMass = \<lparr>x = 50, y = 40\<rparr>,
      velocity = \<lparr>x = 0, y = 0\<rparr>\<rparr>"

definition toppedLevel :: Level where
  "toppedLevel =
     \<lparr>holds = [\<lparr>hold_id = ''f1'', hold_x = 46.75, hold_y = 16, hold_type = finish, rotation = 0\<rparr>,
               \<lparr>hold_id = ''f2'', hold_x = 53.25, hold_y = 16, hold_type = finish, rotation = 0\<rparr>],
      angle = 0, height = None\<rparr>"


definition slabLevel :: Level where
  "slabLevel =
     \<lparr>holds = [\<lparr>hold_id = ''j1'', hold_x = 46.75, hold_y = 40.67, hold_type = jug, rotation = 0\<rparr>],
      angle = - 5, height = None\<rparr>"

definition slabSim :: Sim where
  "slabSim =
     \<lparr>climber =
        \<lparr>limbs = \<lparr>leftHand_of = Attached \<lparr>x = 46.75, y = 40.67\<rparr> ''j1'',
                  rightHand_of = Detached, leftFoot_of = Detached, rightFoot_of = Detached\<rparr>,
         stamina = 100, armPump = \<lparr>left = 0, right = 0\<rparr>, chalk = 100, balance = 0,
         status = climbing, centerOfMass = \<lparr>x = 50, y = 50\<rparr>, velocity = \<lparr>x = 0, y = 0\<rparr>\<rparr>,
      prevCOMRef = \<lparr>x = 50, y = 50\<rparr>, staminaAccumulatorRef = 90, isSlipping = False\<rparr>"

definition placedWhileFalling :: Sim where
  "placedWhileFalling =
     \<lparr>climber = handlePlaceLimb flatLevel (Smearing \<lparr>x = 46, y = 50\<rparr>) leftFoot fallingClimber,
      prevCOMRef = \<lparr>x = 50, y = 38.5\<rparr>, staminaAccumulatorRef = 0, isSlipping = False\<rparr>"


text \<open>A limb value that is attached to a hold of type \<open>finish\<close> of the level.\<close>

definition onFinish :: "Level \<Rightarrow> LimbState \<Rightarrow> bool" where
  "onFinish lvl v =
     (case v of
        Attached p hid \<Rightarrow> map_option hold_type (findHold (holds lvl) hid) = Some finish
      | _ \<Rightarrow> False)"

section \<open>Theorems\<close>

subsection \<open>Friction\<close>

lemma getAngleDiff_le_180: "getAngleDiff a b \<le> 180"
  by (simp add: getAngleDiff_def Let_def)

lemma pullWindow_tolerance_le:
  "s \<le> 1 \<Longrightarrow> snd (pullWindow h s) \<le> 180"
  by (cases "hold_type h") simp_all

lemma handPenalty_nonneg: "0 \<le> handPenalty st hs r hand"
proof (cases hand)
  case (Attached p hid)
  show ?thesis
  proof (cases "findHold hs hid")
    case None
    with Attached show ?thesis by (simp add: handPenalty_def)
  next
    case (Some hold)
    let ?s = "if r then 0.5 else (1::real)"
    have tol: "snd (pullWindow hold ?s) \<le> 180"
      by (rule pullWindow_tolerance_le) simp
    show ?thesis
      using Attached Some tol
      apply (simp add: handPenalty_def Let_def del: pullWindow.simps)
      apply (intro impI conjI)
      apply (rule divide_nonneg_nonneg; simp; fail)+
      done
  qed
qed (simp_all add: handPenalty_def)

lemma footPenalty_nonneg: "0 \<le> footPenalty hs w r foot"
  by (cases foot) (auto simp: footPenalty_def Let_def split: option.splits)

lemma foldl_add_fun:
  "foldl (\<lambda>t a. t + f a) (t0::real) xs = t0 + sum_list (map f xs)"
  by (induction xs arbitrary: t0) simp_all

lemma frictionRest_nonneg: "0 \<le> frictionRest st hs w r"
proof -
  have f: "0 \<le> sum_list (map (footPenalty hs w r) fs)" for fs
    by (rule sum_list_nonneg) (auto simp: footPenalty_nonneg)
  have h: "0 \<le> sum_list (map (handPenalty st hs r) hs')" for hs'
    by (rule sum_list_nonneg) (auto simp: handPenalty_nonneg)
  show ?thesis
    unfolding frictionRest_def Let_def
    by (intro add_nonneg_nonneg h) (simp add: f)
qed

lemma chalkPenalty_nonneg: "0 \<le> chalkPenalty st r"
  by (simp add: chalkPenalty_def)

lemma getFrictionPenalty_split:
  "getFrictionPenalty st hs w r = chalkPenalty st r + frictionRest st hs w r"
proof -
  have "getFrictionPenalty st hs w r = max 0 (chalkPenalty st r + frictionRest st hs w r)"
    by (simp add: getFrictionPenalty_def frictionRest_def Let_def foldl_add_fun add.assoc)
  with chalkPenalty_nonneg [of st r] frictionRest_nonneg [of st hs w r] show ?thesis
    by simp
qed

lemma handPenalty_chalk:
  "handPenalty (st\<lparr>chalk := c\<rparr>) hs r = handPenalty st hs r"
  by (rule ext) (simp add: handPenalty_def split: LimbState.splits option.splits)

lemma frictionRest_chalk:
  "frictionRest (st\<lparr>chalk := c\<rparr>) hs w r = frictionRest st hs w r"
  by (simp add: frictionRest_def handPenalty_chalk)

text \<open>
  C9: the chalk contribution to \<open>getFrictionPenalty\<close> is \<open>max 0 (30 - chalk)\<close> times 0.8 in
  realism mode and 0.5 otherwise: the penalty is that term plus the penalty of the same state
  with the chalk term switched off (chalk 30).  Consequently, on a vertical wall
  (\<open>wallAngle = 0\<close>) the penalty at chalk 0 is strictly greater than the penalty of the
  identical state at chalk 100.
\<close>

theorem C9_chalk_contribution:
  "getFrictionPenalty st hs w r
     = max 0 (30 - chalk st) * (if r then 0.8 else 0.5)
       + getFrictionPenalty (st\<lparr>chalk := 30\<rparr>) hs w r
   \<and> getFrictionPenalty (st\<lparr>chalk := 0\<rparr>) hs 0 r
       > getFrictionPenalty (st\<lparr>chalk := 100\<rparr>) hs 0 r"
  by (simp add: getFrictionPenalty_split chalkPenalty_def frictionRest_chalk)

subsection \<open>Inverse kinematics\<close>

lemma calculateDistance_self: "calculateDistance p p = 0"
  by (simp add: calculateDistance_def)

lemma sqrt_sum_scaled:
  "sqrt ((a * s) ^ 2 + (b * s) ^ 2) = sqrt (a ^ 2 + b ^ 2) * \<bar>s\<bar>"
proof -
  have "(a * s) ^ 2 + (b * s) ^ 2 = (a ^ 2 + b ^ 2) * s ^ 2"
    by (simp add: power_mult_distrib algebra_simps)
  then show ?thesis by (simp add: real_sqrt_mult)
qed

lemma dist_example: "calculateDistance \<lparr>x = 0, y = 0\<rparr> \<lparr>x = 20, y = 0\<rparr> = 20"
  by (simp add: calculateDistance_def)

text \<open>
  C6, as the code has it: when the distance from root to target is at least
  \<open>len1 + len2 - 0.1\<close> (positive lengths), \<open>solveIK\<close> returns the point of the ray from
  \<open>p1\<close> towards \<open>p2\<close> at the fraction \<open>len1 / (len1 + len2)\<close> of the way to the target,
  that is at distance \<open>dist * len1 / (len1 + len2)\<close> from \<open>p1\<close>, which is \<open>len1\<close> only
  when the distance is exactly \<open>len1 + len2\<close>.
\<close>

theorem C6_solveIK_far:
  assumes "calculateDistance p1 p2 \<ge> l1 + l2 - 0.1" and "0 < l1" and "0 < l2"
  shows "\<exists>q. solveIK p1 p2 l1 l2 b = Some q
           \<and> x q = x p1 + (x p2 - x p1) * (l1 / (l1 + l2))
           \<and> y q = y p1 + (y p2 - y p1) * (l1 / (l1 + l2))
           \<and> calculateDistance p1 q = calculateDistance p1 p2 * (l1 / (l1 + l2))"
proof -
  let ?r = "l1 / (l1 + l2)"
  let ?q = "\<lparr>x = x p1 + (x p2 - x p1) * ?r, y = y p1 + (y p2 - y p1) * ?r\<rparr>"
  from assms have nz: "l1 + l2 \<noteq> 0" by simp
  from assms(1) nz have "solveIK p1 p2 l1 l2 b = Some ?q"
    by (simp add: solveIK_def Let_def)
  moreover have "calculateDistance p1 ?q = calculateDistance p1 p2 * ?r"
    using assms(2,3) sqrt_sum_scaled [of "x p2 - x p1" ?r "y p2 - y p1"]
    by (simp add: calculateDistance_def)
  ultimately show ?thesis by simp
qed

text \<open>
  The instance of C6 at the spec's own example: the target \<open>(20, 0)\<close> is beyond
  \<open>5 + 5\<close>, and the joint is the midpoint \<open>(10, 0)\<close>, at distance 10 from the root.
\<close>

theorem C6_solveIK_far_witness:
  "solveIK \<lparr>x = 0, y = 0\<rparr> \<lparr>x = 20, y = 0\<rparr> 5 5 True = Some \<lparr>x = 10, y = 0\<rparr>
   \<and> calculateDistance \<lparr>x = 0, y = 0\<rparr> \<lparr>x = 10, y = 0\<rparr> = 10"
proof -
  have h: "calculateDistance \<lparr>x = 0, y = 0\<rparr> \<lparr>x = 20, y = 0\<rparr> \<ge> 5 + 5 - 0.1"
    by (simp add: dist_example)
  from C6_solveIK_far [OF h, of True] obtain q where
    q: "solveIK \<lparr>x = 0, y = 0\<rparr> \<lparr>x = 20, y = 0\<rparr> 5 5 True = Some q"
       "x q = 10" "y q = 0"
       "calculateDistance \<lparr>x = 0, y = 0\<rparr> q = 10"
    by (auto simp: dist_example)
  from q(2,3) have "q = \<lparr>x = 10, y = 0\<rparr>" by (cases q) simp
  with q show ?thesis by simp
qed

text \<open>
  C6 as the spec states it fails at its own example: the result for root \<open>(0, 0)\<close>, target
  \<open>(20, 0)\<close> and lengths 5 and 5 is not \<open>(5, 0)\<close>.
\<close>

theorem C6_solveIK_far_counterexample:
  "solveIK \<lparr>x = 0, y = 0\<rparr> \<lparr>x = 20, y = 0\<rparr> 5 5 True \<noteq> Some \<lparr>x = 5, y = 0\<rparr>"
  by (simp add: solveIK_def Let_def dist_example)

text \<open>
  C8: when root and target coincide and both lengths are 5, \<open>solveIK\<close> returns a point
  (no division by zero occurs): the distance 0 is floored at 1, the divisor of the
  law-of-cosines quotient is \<open>2 * 1 * 5\<close>, the cosine is \<open>1 / 10\<close>, and the joint lies at
  \<open>(x + 1/2, y \<plusminus> 5 * sqrt (99/100))\<close>, the sign chosen by the bend direction.
\<close>

theorem C8_solveIK_degenerate:
  "solveIK p p 5 5 b
     = Some \<lparr>x = x p + 1 / 2,
             y = y p + (if b then 5 * sqrt (99 / 100) else - (5 * sqrt (99 / 100)))\<rparr>"
proof -
  have c: "cos (arccos (1 / 10 :: real)) = 1 / 10" by (rule cos_arccos) simp_all
  have s: "sin (arccos (1 / 10 :: real)) = sqrt (99 / 100)"
    by (simp add: sin_arccos power2_eq_square)
  show ?thesis
    by (simp add: solveIK_def calculateDistance_self Let_def atan2_def c s)
qed

subsection \<open>Body constraint solver\<close>


text \<open>
  C10: the result of \<open>constrainBodyPosition\<close> does not depend on its \<open>holds\<close> argument:
  for every proposed center of mass, every limbs mapping and every two hold lists the
  two results are equal.
\<close>

theorem C10_constrainBodyPosition_ignores_holds:
  "constrainBodyPosition com ls h1 = constrainBodyPosition com ls h2"
  by (simp add: constrainBodyPosition_def)


lemma sqrt_sum_scaled2:
  "sqrt (a * s * (a * s) + b * s * (b * s)) = sqrt (a * a + b * b) * \<bar>s\<bar>"
proof -
  have "a * s * (a * s) + b * s * (b * s) = (a * a + b * b) * s ^ 2"
    by (simp add: power2_eq_square algebra_simps)
  then show ?thesis by (simp add: real_sqrt_mult)
qed

text \<open>After one application of a constraint the limb is within \<open>maxLen\<close> of its anchor.\<close>

lemma applyConstraint_reach:
  assumes v: "pointOf val = Some v" and m: "0 \<le> maxLen" "minLen \<le> maxLen"
  shows "calculateDistance
           \<lparr>x = x (applyConstraint c val maxLen off minLen) + x off,
            y = y (applyConstraint c val maxLen off minLen) + y off\<rparr> v \<le> maxLen"
proof -
  define dx where "dx = x v - (x c + x off)"
  define dy where "dy = y v - (y c + y off)"
  define d where "d = sqrt (dx * dx + dy * dy)"
  have scaled: "sqrt (dx * (k / d) * (dx * (k / d)) + dy * (k / d) * (dy * (k / d))) = k"
    if "0 < d" "0 \<le> k" for k
    using that sqrt_sum_scaled2 [of dx "k / d" dy] by (simp add: d_def [symmetric])
  consider "d > maxLen" | "\<not> d > maxLen" "d < minLen \<and> d > 0.1"
    | "\<not> d > maxLen" "\<not> (d < minLen \<and> d > 0.1)" by blast
  then show ?thesis
  proof cases
    case 1
    with m have "0 < d" by simp
    from scaled [OF this m(1)] 1 v show ?thesis
      by (simp add: applyConstraint_def calculateDistance_def Let_def power2_eq_square
            dx_def [symmetric] dy_def [symmetric] d_def [symmetric])
  next
    case 2
    then have "0 < d" "0 \<le> minLen" by simp_all
    from scaled [OF this] 2 v m show ?thesis
      by (simp add: applyConstraint_def calculateDistance_def Let_def power2_eq_square
            dx_def [symmetric] dy_def [symmetric] d_def [symmetric])
  next
    case 3
    with v show ?thesis
      by (auto simp add: applyConstraint_def calculateDistance_def Let_def power2_eq_square
            dx_def [symmetric] dy_def [symmetric] d_def [symmetric])
  qed
qed

lemma solverReach_bounds: "0 \<le> solverReach l" "MIN_COMPRESSION \<le> solverReach l"
  by (cases l; simp add: HAND_REACH_def FOOT_REACH_def MIN_COMPRESSION_def MAX_REACH_hand_def
        MAX_REACH_foot_def armUpper_def armLower_def legUpper_def legLower_def)+

lemma constrainPass_last:
  assumes "getLimb ls l \<noteq> Detached" and "\<forall>l' \<in> set (laterLimbs l). getLimb ls l' = Detached"
  shows "\<exists>c. constrainPass ls r
             = applyConstraint c (getLimb ls l) (solverReach l) (anchorOffset l) MIN_COMPRESSION"
  using assms by (cases l) (auto simp: constrainPass_def Let_def)

lemma constrainBodyPosition_last:
  assumes "getLimb ls l \<noteq> Detached" and "\<forall>l' \<in> set (laterLimbs l). getLimb ls l' = Detached"
  shows "\<exists>c. constrainBodyPosition com ls hs
             = applyConstraint c (getLimb ls l) (solverReach l) (anchorOffset l) MIN_COMPRESSION"
proof -
  have "constrainBodyPosition com ls hs = constrainPass ls ((constrainPass ls ^^ 3) com)"
    by (simp add: constrainBodyPosition_def ITERATIONS_def numeral_Bit0 numeral_Bit1 funpow_add)
  with constrainPass_last [OF assms] show ?thesis by simp
qed

lemma constrain_last_reach:
  assumes "pointOf (getLimb ls l) = Some v"
    and "\<forall>l' \<in> set (laterLimbs l). getLimb ls l' = Detached"
  shows "calculateDistance (limbAnchor (constrainBodyPosition com ls hs) l) v \<le> solverReach l"
proof -
  from assms(1) have "getLimb ls l \<noteq> Detached" by auto
  from constrainBodyPosition_last [OF this assms(2)] obtain c where
    c: "constrainBodyPosition com ls hs
          = applyConstraint c (getLimb ls l) (solverReach l) (anchorOffset l) MIN_COMPRESSION"
    by blast
  show ?thesis
    unfolding c limbAnchor_def
    by (rule applyConstraint_reach [OF assms(1) solverReach_bounds])
qed

lemma abs_dx_le_distance: "\<bar>x q - x p\<bar> \<le> calculateDistance p q"
  unfolding calculateDistance_def
  by (rule real_le_rsqrt) (simp add: power2_eq_square)

text \<open>
  C1, as the code has it: after \<open>constrainBodyPosition\<close> returns, the non-null limb that
  comes last in the solver's order (left hand, right hand, left foot, right foot) is within
  \<open>maxReach * 1.001\<close> of its anchor, the returned center of mass plus that limb's offset.
  The limbs treated before it carry no such guarantee.
\<close>

theorem C1_reach_last_limb:
  assumes "pointOf (getLimb ls l) = Some v"
    and "\<forall>l' \<in> set (laterLimbs l). getLimb ls l' = Detached"
  shows "calculateDistance (limbAnchor (constrainBodyPosition com ls hs) l) v
           \<le> maxReach l * 1.001"
proof -
  have "solverReach l \<le> maxReach l * 1.001"
    by (cases l) (simp_all add: HAND_REACH_def FOOT_REACH_def MAX_REACH_hand_def
        MAX_REACH_foot_def armUpper_def armLower_def legUpper_def legLower_def)
  with constrain_last_reach [OF assms, of com hs] show ?thesis by simp
qed

text \<open>
  C1 at two hands 100 units apart: the right hand, treated last, is within reach of
  its anchor.
\<close>

theorem C1_reach_last_limb_witness:
  "calculateDistance
     (limbAnchor (constrainBodyPosition \<lparr>x = 50, y = 50\<rparr> stretched []) rightHand)
     \<lparr>x = 100, y = 0\<rparr> \<le> maxReach rightHand * 1.001"
  by (rule C1_reach_last_limb) (simp_all add: stretched_def)

text \<open>
  C1 as the spec states it fails for opposing constraints: with the hands 100 units apart
  the left hand is farther than \<open>maxReach * 1.001\<close> from its anchor after the solver returns.
\<close>

theorem C1_reach_counterexample:
  "\<not> calculateDistance
        (limbAnchor (constrainBodyPosition \<lparr>x = 50, y = 50\<rparr> stretched []) leftHand)
        \<lparr>x = 0, y = 0\<rparr> \<le> maxReach leftHand * 1.001"
proof -
  let ?r = "constrainBodyPosition \<lparr>x = 50, y = 50\<rparr> stretched []"
  have "calculateDistance (limbAnchor ?r rightHand) \<lparr>x = 100, y = 0\<rparr> \<le> solverReach rightHand"
    by (rule constrain_last_reach) (simp_all add: stretched_def)
  with abs_dx_le_distance [where p = "limbAnchor ?r rightHand" and q = "\<lparr>x = 100, y = 0\<rparr>"]
  have "x ?r \<ge> 83"
    by (simp add: limbAnchor_def HAND_REACH_def MAX_REACH_hand_def armUpper_def armLower_def
          shoulderWidth_def)
  with abs_dx_le_distance [where p = "limbAnchor ?r leftHand" and q = "\<lparr>x = 0, y = 0\<rparr>"]
  show ?thesis
    by (simp add: limbAnchor_def MAX_REACH_hand_def armUpper_def armLower_def shoulderWidth_def)
qed

subsection \<open>Attachments whose hold is gone\<close>





















subsection \<open>The simulation tick\<close>




lemma climbingPhysics_fields:
  "status (climbingPhysics lvl vx vy ns) = status ns"
  "stamina (climbingPhysics lvl vx vy ns) = stamina ns"
  "armPump (climbingPhysics lvl vx vy ns) = armPump ns"
  "chalk (climbingPhysics lvl vx vy ns) = chalk ns"
  "balance (climbingPhysics lvl vx vy ns) = balance ns"
  "velocity (climbingPhysics lvl vx vy ns) = velocity ns"
  by (simp_all add: climbingPhysics_def Let_def)

lemma checkFall_fields:
  "stamina (checkFall lvl d ns) = stamina ns"
  "armPump (checkFall lvl d ns) = armPump ns"
  "chalk (checkFall lvl d ns) = chalk ns"
  "balance (checkFall lvl d ns) = balance ns"
  by (simp_all add: checkFall_def Let_def)



lemma withVelocity_fields:
  "status (withVelocity dt sim) = status (climber sim)"
  "stamina (withVelocity dt sim) = stamina (climber sim)"
  "armPump (withVelocity dt sim) = armPump (climber sim)"
  "chalk (withVelocity dt sim) = chalk (climber sim)"
  "balance (withVelocity dt sim) = balance (climber sim)"
  "limbs (withVelocity dt sim) = limbs (climber sim)"
  "centerOfMass (withVelocity dt sim) = centerOfMass (climber sim)"
  by (simp_all add: withVelocity_def Let_def)

lemma update_falling:
  "status (climber sim) = falling
   \<Longrightarrow> climber (update lvl i r d dt sim) = fallingPhysics lvl (withVelocity dt sim)"
  by (simp add: update_def withVelocity_def Let_def)

lemma update_grounded:
  "status (climber sim) \<noteq> falling \<Longrightarrow> y (centerOfMass (climber sim)) \<ge> getGroundY lvl - 16
   \<Longrightarrow> \<not> d
   \<Longrightarrow> climber (update lvl i r d dt sim)
       = groundedStep lvl (x (velocity (withVelocity dt sim))) (y (velocity (withVelocity dt sim)))
           (withVelocity dt sim)"
  by (simp add: update_def withVelocity_def Let_def)

lemma update_dragging:
  "status (climber sim) \<noteq> falling
   \<Longrightarrow> climber (update lvl i r True dt sim)
       = checkFall lvl True ((withVelocity dt sim)\<lparr>balance := 0\<rparr>)"
  by (simp add: update_def withVelocity_def Let_def)

lemma update_airborne:
  "status (climber sim) \<noteq> falling \<Longrightarrow> y (centerOfMass (climber sim)) < getGroundY lvl - 16
   \<Longrightarrow> climber (update lvl i r False dt sim)
       = checkFall lvl False
           (if status (climber sim) = climbing then
              (if staminaAccumulatorRef sim + dt > 100
               then fst (drainInterval lvl i r (physicsState lvl dt sim))
               else physicsState lvl dt sim)
            else (physicsState lvl dt sim)\<lparr>balance := 0\<rparr>)"
  by (simp add: update_def physicsState_def Let_def climbingPhysics_fields)

lemma physicsState_fields:
  "status (physicsState lvl dt sim) = status (climber sim)"
  "stamina (physicsState lvl dt sim) = stamina (climber sim)"
  "armPump (physicsState lvl dt sim) = armPump (climber sim)"
  "chalk (physicsState lvl dt sim) = chalk (climber sim)"
  "balance (physicsState lvl dt sim) = balance (climber sim)"
  by (simp_all add: physicsState_def Let_def climbingPhysics_fields)

lemma physicsState_eq:
  "physicsState lvl dt sim
     = climbingPhysics lvl (x (velocity (withVelocity dt sim))) (y (velocity (withVelocity dt sim)))
         (withVelocity dt sim)"
  by (simp add: physicsState_def withVelocity_def Let_def)



lemma checkFall_dragging: "checkFall lvl True ns = ns"
  by (simp add: checkFall_def)


lemma allDetached_hands:
  "allDetached\<lparr>leftHand_of := Detached\<rparr> = allDetached"
  "allDetached\<lparr>rightHand_of := Detached\<rparr> = allDetached"
  by (simp_all add: allDetached_def)

lemma applyDrains_shape:
  obtains ns5 where
    "applyDrains d ns = (if stamina ns5 \<le> 0 then ns5\<lparr>status := falling, limbs := allDetached\<rparr> else ns5)"
    "status ns5 = status ns"
    "limbs ns = allDetached \<Longrightarrow> limbs ns5 = allDetached"
    "0 \<le> core d \<Longrightarrow> stamina ns \<le> 100 \<Longrightarrow> stamina ns5 \<le> 100"
    "0 \<le> stamina ns5"
    "0 \<le> left (armPump ns5)" "left (armPump ns5) \<le> 100"
    "0 \<le> right (armPump ns5)" "right (armPump ns5) \<le> 100"
    "chalk ns \<le> 100 \<Longrightarrow> chalk ns5 \<le> 100" "0 \<le> chalk ns5"
    "balance ns5 = balance ns"
proof -
  define ns3 where "ns3 = ns\<lparr>stamina := max 0 (stamina ns - core d),
                 armPump := \<lparr>left = max 0 (min 100 (left (armPump ns) + leftPump d)),
                             right = max 0 (min 100 (right (armPump ns) + rightPump d))\<rparr>,
                 chalk := max 0 (chalk ns - 0.02)\<rparr>"
  define ns4 where "ns4 = (if left (armPump ns3) \<ge> 100
                 then ns3\<lparr>limbs := (limbs ns3)\<lparr>leftHand_of := Detached\<rparr>\<rparr> else ns3)"
  define ns5 where "ns5 = (if right (armPump ns4) \<ge> 100
                 then ns4\<lparr>limbs := (limbs ns4)\<lparr>rightHand_of := Detached\<rparr>\<rparr> else ns4)"
  have r: "applyDrains d ns
             = (if stamina ns5 \<le> 0 then ns5\<lparr>status := falling, limbs := allDetached\<rparr> else ns5)"
    by (simp only: applyDrains_def Let_def ns3_def ns4_def ns5_def)
  have f3: "status ns3 = status ns" "limbs ns3 = limbs ns" "balance ns3 = balance ns"
    "stamina ns3 = max 0 (stamina ns - core d)" "chalk ns3 = max 0 (chalk ns - 0.02)"
    "left (armPump ns3) = max 0 (min 100 (left (armPump ns) + leftPump d))"
    "right (armPump ns3) = max 0 (min 100 (right (armPump ns) + rightPump d))"
    by (simp_all add: ns3_def)
  have f4: "status ns4 = status ns3" "balance ns4 = balance ns3" "stamina ns4 = stamina ns3"
    "chalk ns4 = chalk ns3" "armPump ns4 = armPump ns3"
    "limbs ns3 = allDetached \<Longrightarrow> limbs ns4 = allDetached"
    by (simp_all add: ns4_def allDetached_hands)
  have f5: "status ns5 = status ns4" "balance ns5 = balance ns4" "stamina ns5 = stamina ns4"
    "chalk ns5 = chalk ns4" "armPump ns5 = armPump ns4"
    "limbs ns4 = allDetached \<Longrightarrow> limbs ns5 = allDetached"
    by (simp_all add: ns5_def allDetached_hands)
  show thesis
    by (rule that [of ns5]) (simp_all add: r f3 f4 f5)
qed


lemma fallingPhysics_detached:
  "status (fallingPhysics lvl ns) = falling \<Longrightarrow> limbs (fallingPhysics lvl ns) = allDetached"
  by (simp add: fallingPhysics_def Let_def split: if_splits)

lemma groundedStep_status: "status (groundedStep lvl vx vy ns) = idle"
  by (simp add: groundedStep_def Let_def)

lemma applyDrains_detached:
  assumes "status ns = falling \<longrightarrow> limbs ns = allDetached"
  shows "status (applyDrains d ns) = falling \<longrightarrow> limbs (applyDrains d ns) = allDetached"
proof -
  obtain ns5 where
    r: "applyDrains d ns = (if stamina ns5 \<le> 0 then ns5\<lparr>status := falling, limbs := allDetached\<rparr> else ns5)"
    and s: "status ns5 = status ns" and l: "limbs ns = allDetached \<Longrightarrow> limbs ns5 = allDetached"
    using applyDrains_shape [of d ns] by blast
  from assms s l show ?thesis by (simp add: r)
qed

lemma applyDrains_falling:
  assumes "status ns = falling"
  shows "status (applyDrains d ns) = falling"
proof -
  obtain ns5 where
    r: "applyDrains d ns = (if stamina ns5 \<le> 0 then ns5\<lparr>status := falling, limbs := allDetached\<rparr> else ns5)"
    and s: "status ns5 = status ns"
    using applyDrains_shape [of d ns] by blast
  from assms s show ?thesis by (simp add: r)
qed

lemma applyDrains_inRange:
  assumes "inRange ns" "0 \<le> core d"
  shows "inRange (applyDrains d ns)"
proof -
  obtain ns5 where
    "applyDrains d ns = (if stamina ns5 \<le> 0 then ns5\<lparr>status := falling, limbs := allDetached\<rparr> else ns5)"
    "0 \<le> core d \<Longrightarrow> stamina ns \<le> 100 \<Longrightarrow> stamina ns5 \<le> 100"
    "0 \<le> stamina ns5"
    "0 \<le> left (armPump ns5)" "left (armPump ns5) \<le> 100"
    "0 \<le> right (armPump ns5)" "right (armPump ns5) \<le> 100"
    "chalk ns \<le> 100 \<Longrightarrow> chalk ns5 \<le> 100" "0 \<le> chalk ns5"
    "balance ns5 = balance ns"
    using applyDrains_shape [of d ns] by blast
  with assms show ?thesis by (simp add: inRange_def)
qed

lemma drainInterval_shape:
  obtains ns2 where
    "fst (drainInterval lvl ist rm ns)
       = (if \<not> ist then applyDrains (calculateTickDrain ns2 (holds lvl) HOLD_STAMINA_DRAIN (angle lvl) rm) ns2
          else ns2)"
    "ns2 = (if calculateStability ns (holds lvl) (angle lvl) rm \<ge> 100 \<and> \<not> ist
            then ns\<lparr>balance := 100, status := falling, limbs := allDetached\<rparr>
            else ns\<lparr>balance := calculateStability ns (holds lvl) (angle lvl) rm\<rparr>)"
proof -
  define ns2 where "ns2 = (if calculateStability ns (holds lvl) (angle lvl) rm \<ge> 100 \<and> \<not> ist
            then ns\<lparr>balance := 100, status := falling, limbs := allDetached\<rparr>
            else ns\<lparr>balance := calculateStability ns (holds lvl) (angle lvl) rm\<rparr>)"
  have "fst (drainInterval lvl ist rm ns)
       = (if \<not> ist then applyDrains (calculateTickDrain ns2 (holds lvl) HOLD_STAMINA_DRAIN (angle lvl) rm) ns2
          else ns2)"
    unfolding drainInterval_def Let_def ns2_def by (simp cong: if_cong)
  then show thesis using ns2_def by (rule that)
qed

lemma drainInterval_detached:
  assumes "status ns \<noteq> falling"
  shows "status (fst (drainInterval lvl ist rm ns)) = falling
           \<longrightarrow> limbs (fst (drainInterval lvl ist rm ns)) = allDetached"
proof -
  obtain ns2 where
    r: "fst (drainInterval lvl ist rm ns)
       = (if \<not> ist then applyDrains (calculateTickDrain ns2 (holds lvl) HOLD_STAMINA_DRAIN (angle lvl) rm) ns2
          else ns2)"
    and n: "ns2 = (if calculateStability ns (holds lvl) (angle lvl) rm \<ge> 100 \<and> \<not> ist
            then ns\<lparr>balance := 100, status := falling, limbs := allDetached\<rparr>
            else ns\<lparr>balance := calculateStability ns (holds lvl) (angle lvl) rm\<rparr>)"
    by (rule drainInterval_shape)
  from assms n have p: "status ns2 = falling \<longrightarrow> limbs ns2 = allDetached" by simp
  from applyDrains_detached [OF p] p show ?thesis by (simp add: r)
qed

lemma drainInterval_forced:
  assumes "calculateStability ns (holds lvl) (angle lvl) rm \<ge> 100"
  shows "status (fst (drainInterval lvl False rm ns)) = falling
       \<and> limbs (fst (drainInterval lvl False rm ns)) = allDetached"
proof -
  obtain ns2 where
    r: "fst (drainInterval lvl False rm ns)
       = (if \<not> False then applyDrains (calculateTickDrain ns2 (holds lvl) HOLD_STAMINA_DRAIN (angle lvl) rm) ns2
          else ns2)"
    and n: "ns2 = (if calculateStability ns (holds lvl) (angle lvl) rm \<ge> 100 \<and> \<not> False
            then ns\<lparr>balance := 100, status := falling, limbs := allDetached\<rparr>
            else ns\<lparr>balance := calculateStability ns (holds lvl) (angle lvl) rm\<rparr>)"
    by (rule drainInterval_shape)
  from assms n have p: "status ns2 = falling" "limbs ns2 = allDetached" by simp_all
  from applyDrains_falling [OF p(1)] applyDrains_detached [of ns2] p show ?thesis
    by (simp add: r)
qed

lemma checkFall_detached:
  assumes "status ns = falling \<longrightarrow> limbs ns = allDetached"
  shows "status (checkFall lvl d ns) = falling \<longrightarrow> limbs (checkFall lvl d ns) = allDetached"
  using assms by (simp add: checkFall_def Let_def)

lemma checkFall_falling:
  assumes "status ns = falling"
  shows "status (checkFall lvl d ns) = falling" "limbs (checkFall lvl d ns) = limbs ns"
  using assms by (simp_all add: checkFall_def Let_def)


lemma calculateStability_range:
  "0 \<le> calculateStability st hs w r" "calculateStability st hs w r \<le> 100"
  unfolding calculateStability_def Let_def by simp_all

lemma core_nonneg:
  assumes "0 \<le> balance st"
  shows "0 \<le> core (calculateTickDrain st hs dr w r)"
proof -
  have "0 \<le> balance st / 100 * (if r then 0.05 else 0.03)" using assms by simp
  moreover have "0 \<le> (if w > 0 then (w / 45) * 0.06 else 0)" by simp
  ultimately show ?thesis
    unfolding calculateTickDrain_def Let_def
    by (simp del: divide_le_0_iff zero_le_divide_iff)
qed

lemma inRange_fields:
  "stamina c' = stamina c \<Longrightarrow> armPump c' = armPump c \<Longrightarrow> chalk c' = chalk c
   \<Longrightarrow> balance c' = balance c \<Longrightarrow> inRange c \<Longrightarrow> inRange c'"
  by (simp add: inRange_def)

lemma fallingPhysics_inRange: "inRange ns \<Longrightarrow> inRange (fallingPhysics lvl ns)"
  by (simp add: fallingPhysics_def inRange_def Let_def)

lemma groundedStep_inRange: "inRange ns \<Longrightarrow> inRange (groundedStep lvl vx vy ns)"
  by (simp add: groundedStep_def inRange_def Let_def)

lemma checkFall_inRange: "inRange ns \<Longrightarrow> inRange (checkFall lvl d ns)"
  by (rule inRange_fields [of _ ns]) (simp_all add: checkFall_fields)

lemma withVelocity_inRange: "inRange (climber sim) \<Longrightarrow> inRange (withVelocity dt sim)"
  by (rule inRange_fields [of _ "climber sim"]) (simp_all add: withVelocity_fields)

lemma physicsState_inRange: "inRange (climber sim) \<Longrightarrow> inRange (physicsState lvl dt sim)"
  by (rule inRange_fields [of _ "climber sim"]) (simp_all add: physicsState_fields)

lemma balance0_inRange: "inRange ns \<Longrightarrow> inRange (ns\<lparr>balance := 0\<rparr>)"
  by (simp add: inRange_def)

lemma drainInterval_inRange:
  assumes "inRange ns"
  shows "inRange (fst (drainInterval lvl ist rm ns))"
proof -
  obtain ns2 where
    r: "fst (drainInterval lvl ist rm ns)
       = (if \<not> ist then applyDrains (calculateTickDrain ns2 (holds lvl) HOLD_STAMINA_DRAIN (angle lvl) rm) ns2
          else ns2)"
    and n: "ns2 = (if calculateStability ns (holds lvl) (angle lvl) rm \<ge> 100 \<and> \<not> ist
            then ns\<lparr>balance := 100, status := falling, limbs := allDetached\<rparr>
            else ns\<lparr>balance := calculateStability ns (holds lvl) (angle lvl) rm\<rparr>)"
    by (rule drainInterval_shape)
  from assms calculateStability_range [of ns "holds lvl" "angle lvl" rm]
  have i2: "inRange ns2" by (simp add: n inRange_def)
  then have "0 \<le> balance ns2" by (simp add: inRange_def)
  from applyDrains_inRange [OF i2 core_nonneg [OF this]] i2 show ?thesis
    by (simp add: r)
qed

lemma update_inRange:
  assumes "inRange (climber sim)"
  shows "inRange (climber (update lvl ist rm d dt sim))"
proof (cases "status (climber sim) = falling")
  case True
  from update_falling [OF True, of lvl ist rm d dt] assms show ?thesis
    by (simp add: fallingPhysics_inRange withVelocity_inRange)
next
  case nf: False
  show ?thesis
  proof (cases d)
    case True
    with update_dragging [OF nf, of lvl ist rm dt] assms show ?thesis
      by (simp add: checkFall_inRange balance0_inRange withVelocity_inRange)
  next
    case nd: False
    show ?thesis
    proof (cases "y (centerOfMass (climber sim)) \<ge> getGroundY lvl - 16")
      case True
      from update_grounded [OF nf True nd, of ist rm dt] assms show ?thesis
        by (simp add: groundedStep_inRange withVelocity_inRange)
    next
      case False
      then have air: "y (centerOfMass (climber sim)) < getGroundY lvl - 16" by simp
      from update_airborne [OF nf air, of ist rm dt] nd assms show ?thesis
        by (simp add: checkFall_inRange balance0_inRange drainInterval_inRange
              physicsState_inRange)
    qed
  qed
qed

lemma tick_inRange:
  "inRange (climber sim) \<Longrightarrow> inRange (climber (tick lvl ist rm d dt sim))"
  by (simp add: tick_def Let_def update_inRange)

lemma reachable_inRange: "reachable sim \<Longrightarrow> inRange (climber sim)"
proof (induction rule: reachable.induct)
  case (r_init lvl)
  show ?case by (simp add: initialSim_def inRange_def INITIAL_STAMINA_def INITIAL_CHALK_def)
next
  case (r_tick s lvl infiniteStamina realismMode isUserDragging dt)
  then show ?case by (simp add: tick_inRange)
next
  case (r_place s lvl val limb)
  then show ?case by (simp add: handlePlaceLimb_def inRange_def Let_def)
next
  case (r_com s newCOM)
  then show ?case by (simp add: handleUpdateCOM_def inRange_def)
next
  case (r_chalk s)
  then show ?case by (simp add: chalkUp_def inRange_def)
next
  case (r_reset s lvl)
  show ?case by (simp add: resetClimber_def inRange_def INITIAL_STAMINA_def INITIAL_CHALK_def)
qed


text \<open>
  C3: for every reachable state and every tick (any level, flags and elapsed time), the
  fields stamina, chalk, both arm pumps and balance lie in the closed interval from 0 to 100
  after the tick.
\<close>

theorem C3_clamping:
  assumes "reachable sim"
  shows "0 \<le> stamina (climber (tick lvl ist rm d dt sim))
       \<and> stamina (climber (tick lvl ist rm d dt sim)) \<le> 100
       \<and> 0 \<le> chalk (climber (tick lvl ist rm d dt sim))
       \<and> chalk (climber (tick lvl ist rm d dt sim)) \<le> 100
       \<and> 0 \<le> left (armPump (climber (tick lvl ist rm d dt sim)))
       \<and> left (armPump (climber (tick lvl ist rm d dt sim))) \<le> 100
       \<and> 0 \<le> right (armPump (climber (tick lvl ist rm d dt sim)))
       \<and> right (armPump (climber (tick lvl ist rm d dt sim))) \<le> 100
       \<and> 0 \<le> balance (climber (tick lvl ist rm d dt sim))
       \<and> balance (climber (tick lvl ist rm d dt sim)) \<le> 100"
  using tick_inRange [OF reachable_inRange [OF assms], of lvl ist rm d dt]
  by (simp add: inRange_def)

text \<open>
  C3 at the state reached by placing the left hand on a hold from the reset state of the
  flat level, for a tick of 16 ms.
\<close>

theorem C3_clamping_witness:
  "0 \<le> stamina (climber (tick flatLevel False False False 16
         ((initialSim flatLevel)\<lparr>climber := handlePlaceLimb flatLevel
            (Attached \<lparr>x = 46, y = 80\<rparr> ''h'') leftHand (climber (initialSim flatLevel))\<rparr>)))
   \<and> stamina (climber (tick flatLevel False False False 16
         ((initialSim flatLevel)\<lparr>climber := handlePlaceLimb flatLevel
            (Attached \<lparr>x = 46, y = 80\<rparr> ''h'') leftHand (climber (initialSim flatLevel))\<rparr>))) \<le> 100
   \<and> 0 \<le> balance (climber (tick flatLevel False False False 16
         ((initialSim flatLevel)\<lparr>climber := handlePlaceLimb flatLevel
            (Attached \<lparr>x = 46, y = 80\<rparr> ''h'') leftHand (climber (initialSim flatLevel))\<rparr>)))
   \<and> balance (climber (tick flatLevel False False False 16
         ((initialSim flatLevel)\<lparr>climber := handlePlaceLimb flatLevel
            (Attached \<lparr>x = 46, y = 80\<rparr> ''h'') leftHand (climber (initialSim flatLevel))\<rparr>))) \<le> 100"
proof -
  have r: "reachable ((initialSim flatLevel)\<lparr>climber := handlePlaceLimb flatLevel
            (Attached \<lparr>x = 46, y = 80\<rparr> ''h'') leftHand (climber (initialSim flatLevel))\<rparr>)"
    by (rule r_place [OF r_init])
  from C3_clamping [OF r, of flatLevel False False False 16] show ?thesis by blast
qed


lemma handlePlaceLimb_limbs:
  "limbs (handlePlaceLimb lvl val limb prev) = setLimb (limbs prev) limb val"
  by (simp add: handlePlaceLimb_def Let_def)

lemma handlePlaceLimb_falling:
  assumes "status prev = falling"
  shows "status (handlePlaceLimb lvl val limb prev)
           = (if onFinish lvl (leftHand_of (setLimb (limbs prev) limb val))
                 \<and> onFinish lvl (rightHand_of (setLimb (limbs prev) limb val))
              then topped else falling)"
  using assms
  by (cases limb; cases val; cases "leftHand_of (limbs prev)"; cases "rightHand_of (limbs prev)")
     (simp_all add: handlePlaceLimb_def onFinish_def Let_def)

lemma fallingPhysics_cases:
  "(status (fallingPhysics lvl ns) = status ns \<and> limbs (fallingPhysics lvl ns) = allDetached)
   \<or> (status (fallingPhysics lvl ns) = idle \<and> limbs (fallingPhysics lvl ns) = getStartLimbs lvl)"
  by (simp add: fallingPhysics_def Let_def)

text \<open>
  C5, as the code has it.  After every tick that updates the state (positive elapsed
  time), from any state whatever, a falling climber has all four limbs detached.  A limb
  placement applied while falling does not keep that invariant: it stores the placed limb as
  given, and it leaves the status falling unless both hands are then attached to holds of
  type \<open>finish\<close>, in which case the status becomes topped.  The updating tick of a
  falling state restores the invariant: it either stays falling with all limbs detached,
  or lands, idle in the grounded start pose.
\<close>

theorem C5_falling_detached_after_tick:
  assumes "0 < dt"
  shows "(status (climber (tick lvl ist rm isUserDragging dt sim)) = falling
           \<longrightarrow> limbs (climber (tick lvl ist rm isUserDragging dt sim)) = allDetached)
       \<and> (status prev = falling
           \<longrightarrow> limbs (handlePlaceLimb lvl val limb prev) = setLimb (limbs prev) limb val
             \<and> status (handlePlaceLimb lvl val limb prev)
                 = (if onFinish lvl (leftHand_of (setLimb (limbs prev) limb val))
                       \<and> onFinish lvl (rightHand_of (setLimb (limbs prev) limb val))
                    then topped else falling))
       \<and> (status (climber sim) = falling
           \<longrightarrow> (status (climber (tick lvl ist rm isUserDragging dt sim)) = falling
                 \<and> limbs (climber (tick lvl ist rm isUserDragging dt sim)) = allDetached)
               \<or> (status (climber (tick lvl ist rm isUserDragging dt sim)) = idle
                 \<and> limbs (climber (tick lvl ist rm isUserDragging dt sim)) = getStartLimbs lvl))"
proof (intro conjI impI)
  let ?dt = "min dt 50"
  from assms have t: "tick lvl ist rm d dt sim = update lvl ist rm d ?dt sim" for d
    by (simp add: tick_def)
  show "limbs (handlePlaceLimb lvl val limb prev) = setLimb (limbs prev) limb val"
    by (rule handlePlaceLimb_limbs)
  show "status (handlePlaceLimb lvl val limb prev)
          = (if onFinish lvl (leftHand_of (setLimb (limbs prev) limb val))
                \<and> onFinish lvl (rightHand_of (setLimb (limbs prev) limb val))
             then topped else falling)"
    if "status prev = falling"
    using that by (rule handlePlaceLimb_falling)
  show "(status (climber (tick lvl ist rm isUserDragging dt sim)) = falling
           \<and> limbs (climber (tick lvl ist rm isUserDragging dt sim)) = allDetached)
        \<or> (status (climber (tick lvl ist rm isUserDragging dt sim)) = idle
           \<and> limbs (climber (tick lvl ist rm isUserDragging dt sim)) = getStartLimbs lvl)"
    if f: "status (climber sim) = falling"
    using update_falling [OF f, of lvl ist rm isUserDragging ?dt]
      fallingPhysics_cases [of lvl "withVelocity ?dt sim"] f
    by (simp add: t withVelocity_fields)
  show "limbs (climber (tick lvl ist rm isUserDragging dt sim)) = allDetached"
    if fl: "status (climber (tick lvl ist rm isUserDragging dt sim)) = falling"
  proof (cases "status (climber sim) = falling")
    case True
    from update_falling [OF True, of lvl ist rm isUserDragging ?dt] fl show ?thesis
      by (simp add: t fallingPhysics_detached)
  next
    case nf: False
    show ?thesis
    proof (cases isUserDragging)
      case True
      with update_dragging [OF nf, of lvl ist rm ?dt] nf fl show ?thesis
        by (simp add: t checkFall_dragging withVelocity_fields)
    next
      case nd: False
      show ?thesis
      proof (cases "y (centerOfMass (climber sim)) \<ge> getGroundY lvl - 16")
        case True
        from update_grounded [OF nf True nd, of ist rm ?dt] fl show ?thesis
          by (simp add: t groundedStep_status)
      next
        case False
        then have air: "y (centerOfMass (climber sim)) < getGroundY lvl - 16" by simp
        let ?p = "physicsState lvl ?dt sim"
        have pnf: "status ?p \<noteq> falling" using nf by (simp add: physicsState_fields)
        let ?mid = "if status (climber sim) = climbing then
              (if staminaAccumulatorRef sim + ?dt > 100
               then fst (drainInterval lvl ist rm ?p)
               else ?p)
            else ?p\<lparr>balance := 0\<rparr>"
        have "status ?mid = falling \<longrightarrow> limbs ?mid = allDetached"
          using pnf drainInterval_detached [OF pnf, of lvl ist rm] by simp
        from checkFall_detached [OF this, of lvl False] update_airborne [OF nf air, of ist rm ?dt] nd fl
        show ?thesis by (simp add: t)
      qed
    qed
  qed
qed

text \<open>
  C4, as the code has it: in a tick in which the drain interval triggers (the accumulated
  time exceeds 100) while the status is climbing, the user is not dragging and the climber
  is above the ground zone, if the freshly computed stability score is at least 100 and the
  infinite-stamina override is off, then at the end of the tick the status is falling and
  all four limbs are detached.
\<close>

theorem C4_balance_forces_fall:
  assumes "status (climber sim) = climbing"
    and "0 < dt"
    and "y (centerOfMass (climber sim)) < getGroundY lvl - 16"
    and "staminaAccumulatorRef sim + min dt 50 > 100"
    and "calculateStability (physicsState lvl (min dt 50) sim) (holds lvl) (angle lvl) rm \<ge> 100"
  shows "status (climber (tick lvl False rm False dt sim)) = falling
       \<and> limbs (climber (tick lvl False rm False dt sim)) = allDetached"
proof -
  let ?dt = "min dt 50"
  from assms(2) have t: "tick lvl False rm False dt sim = update lvl False rm False ?dt sim"
    by (simp add: tick_def)
  from assms(1) have nf: "status (climber sim) \<noteq> falling" by simp
  let ?d = "fst (drainInterval lvl False rm (physicsState lvl ?dt sim))"
  have u: "climber (update lvl False rm False ?dt sim) = checkFall lvl False ?d"
    using update_airborne [OF nf assms(3), of False rm ?dt] assms(1,4) by simp
  from drainInterval_forced [OF assms(5)]
  have "status ?d = falling" "limbs ?d = allDetached" by simp_all
  with checkFall_falling [of ?d lvl False] show ?thesis by (simp add: t u)
qed

subsection \<open>The tick at example states\<close>

lemma applyConstraint_at_anchor:
  assumes "pointOf val = Some v" "x v = x c + x off" "y v = y c + y off" "0 \<le> maxLen"
  shows "applyConstraint c val maxLen off minLen = c"
  using assms by (simp add: applyConstraint_def)

lemma checkAndDetach_null:
  "getLimb ls l = Detached \<Longrightarrow> checkAndDetach c ls l off maxR = ls"
  by (simp add: checkAndDetach_def)

lemma checkAndDetach_at_anchor:
  assumes "pointOf (getLimb ls l) = Some v" "x v = x c + x off" "y v = y c + y off" "0 \<le> maxR"
  shows "checkAndDetach c ls l off maxR = ls"
  using assms by (simp add: checkAndDetach_def calculateDistance_def)

lemma funpow_fix: "f c = c \<Longrightarrow> (f ^^ n) c = c"
  by (induction n) simp_all

lemma constrainBodyPosition_fixed:
  "constrainPass ls c = c \<Longrightarrow> constrainBodyPosition c ls hs = c"
  by (simp add: constrainBodyPosition_def funpow_fix)

lemmas anatomy = shoulderWidth_def torsoHeight_def hipWidth_def MAX_REACH_hand_def
  MAX_REACH_foot_def armUpper_def armLower_def legUpper_def legLower_def HAND_REACH_def
  FOOT_REACH_def MIN_COMPRESSION_def

lemma slab_limbs:
  "limbs (climber slabSim)
     = \<lparr>leftHand_of = Attached \<lparr>x = 46.75, y = 40.67\<rparr> ''j1'',
        rightHand_of = Detached, leftFoot_of = Detached, rightFoot_of = Detached\<rparr>"
  by (simp add: slabSim_def)

lemma slab_velocity: "withVelocity 16 slabSim = climber slabSim"
  by (simp add: withVelocity_def slabSim_def)

lemma slab_propose: "proposeCOM slabLevel 0 0 (climber slabSim) = \<lparr>x = 50, y = 50.02\<rparr>"
  by (simp add: proposeCOM_def slabSim_def slabLevel_def)

lemma slab_detach:
  "autoDetach \<lparr>x = 50, y = 50.02\<rparr> (limbs (climber slabSim)) = limbs (climber slabSim)"
  by (simp add: autoDetach_def slab_limbs anatomy checkAndDetach_null
        checkAndDetach_at_anchor [where v = "\<lparr>x = 46.75, y = 40.67\<rparr>"])

lemma slab_pass:
  "constrainPass (limbs (climber slabSim)) \<lparr>x = 50, y = 50.02\<rparr> = \<lparr>x = 50, y = 50.02\<rparr>"
  by (simp add: constrainPass_def slab_limbs anatomy
        applyConstraint_at_anchor [where v = "\<lparr>x = 46.75, y = 40.67\<rparr>"])

lemma slab_physics:
  "physicsState slabLevel 16 slabSim
     = (climber slabSim)\<lparr>centerOfMass := \<lparr>x = 50, y = 50.02\<rparr>\<rparr>"
proof -
  have v: "x (velocity (climber slabSim)) = 0" "y (velocity (climber slabSim)) = 0"
    by (simp_all add: slabSim_def)
  have "physicsState slabLevel 16 slabSim = climbingPhysics slabLevel 0 0 (climber slabSim)"
    by (simp add: physicsState_eq slab_velocity v)
  also have "\<dots> = (climber slabSim)\<lparr>centerOfMass := \<lparr>x = 50, y = 50.02\<rparr>\<rparr>"
    unfolding climbingPhysics_def Let_def slab_propose slab_detach
      constrainBodyPosition_fixed [OF slab_pass]
    by simp
  finally show ?thesis .
qed

lemma calculateStability_shape:
  assumes "limbXs (limbValues (limbs st)) \<noteq> []"
  shows "\<exists>S D. 0 \<le> S \<and> 0 \<le> D
           \<and> calculateStability st hs w r
               = min 100 (max 0 (getFrictionPenalty st hs w r + S + D * 2.5))"
  unfolding calculateStability_def Let_def
  apply (simp only: length_0_conv assms if_False)
  apply (rule exI, rule exI)
  apply (rule conjI [rotated], rule conjI [rotated], rule refl)
   apply (intro mult_nonneg_nonneg)
    apply (simp_all add: add_nonneg_nonneg)
  done

lemma calculateStability_ge_friction:
  assumes "limbXs (limbValues (limbs st)) \<noteq> []"
  shows "min 100 (getFrictionPenalty st hs w r) \<le> calculateStability st hs w r"
proof -
  from calculateStability_shape [OF assms, of hs w r] obtain S D where
    "0 \<le> S" "0 \<le> D"
    "calculateStability st hs w r = min 100 (max 0 (getFrictionPenalty st hs w r + S + D * 2.5))"
    by blast
  then show ?thesis by simp
qed

lemma friction_campus_slab:
  assumes "nonNull [leftFoot_of (limbs st), rightFoot_of (limbs st)] = []"
    and "nonNull [leftHand_of (limbs st), rightHand_of (limbs st)] \<noteq> []"
    and "w < 0"
  shows "150 \<le> getFrictionPenalty st hs w r"
proof -
  have h: "0 \<le> sum_list (map (handPenalty st hs r) hs')" for hs'
    by (rule sum_list_nonneg) (auto simp: handPenalty_nonneg)
  have "150 \<le> frictionRest st hs w r"
    using assms h [of "nonNull [leftHand_of (limbs st), rightHand_of (limbs st)]"]
    by (simp add: frictionRest_def)
  with chalkPenalty_nonneg [of st r] show ?thesis
    by (simp add: getFrictionPenalty_split)
qed

lemma slab_stability:
  "calculateStability (physicsState slabLevel 16 slabSim) (holds slabLevel) (angle slabLevel) rm
     \<ge> 100"
proof -
  let ?p = "physicsState slabLevel 16 slabSim"
  have l: "limbs ?p = limbs (climber slabSim)" by (simp add: slab_physics)
  have a: "limbXs (limbValues (limbs ?p)) \<noteq> []"
    by (simp add: l slab_limbs limbXs_def limbValues_def)
  have ang: "angle slabLevel < 0" by (simp add: slabLevel_def)
  have "150 \<le> getFrictionPenalty ?p (holds slabLevel) (angle slabLevel) rm"
    by (rule friction_campus_slab [OF _ _ ang]) (simp_all add: l slab_limbs nonNull_def)
  with calculateStability_ge_friction [OF a, of "holds slabLevel" "angle slabLevel" rm]
  show ?thesis by simp
qed

lemma slab_pre:
  "status (climber slabSim) = climbing"
  "y (centerOfMass (climber slabSim)) < getGroundY slabLevel - 16"
  "staminaAccumulatorRef slabSim + min 16 50 > 100"
  by (simp_all add: slabSim_def slabLevel_def getGroundY_def)

text \<open>
  C4 at a climber hanging from one jug on a slab with both feet off: the campusing penalty
  alone puts the stability score at 100, the drain interval triggers (90 + 16 > 100), and
  the tick ends falling with all limbs detached.
\<close>

theorem C4_balance_forces_fall_witness:
  "status (climber (tick slabLevel False False False 16 slabSim)) = falling
   \<and> limbs (climber (tick slabLevel False False False 16 slabSim)) = allDetached"
proof -
  have s: "calculateStability (physicsState slabLevel (min 16 50) slabSim) (holds slabLevel)
             (angle slabLevel) False \<ge> 100"
    using slab_stability [of False] by simp
  show ?thesis
    by (rule C4_balance_forces_fall [OF slab_pre(1) _ slab_pre(2,3) s]) simp
qed

lemma drainInterval_infinite:
  "status (fst (drainInterval lvl True rm ns)) = status ns"
  "limbs (fst (drainInterval lvl True rm ns)) = limbs ns"
  "centerOfMass (fst (drainInterval lvl True rm ns)) = centerOfMass ns"
  by (simp_all add: drainInterval_def Let_def)

lemma checkFall_hand:
  "isAttached (leftHand_of (limbs ns)) \<or> isAttached (rightHand_of (limbs ns))
   \<Longrightarrow> checkFall lvl d ns = ns"
  by (auto simp add: checkFall_def Let_def)

text \<open>
  C4 as the spec states it fails when the infinite-stamina override is on: in the same
  tick of the same climber the score is at least 100, and the status stays climbing.
\<close>

theorem C4_fall_counterexample:
  "status (climber slabSim) = climbing
   \<and> staminaAccumulatorRef slabSim + min 16 50 > 100
   \<and> calculateStability (physicsState slabLevel (min 16 50) slabSim) (holds slabLevel)
        (angle slabLevel) False \<ge> 100
   \<and> status (climber (tick slabLevel True False False 16 slabSim)) = climbing"
proof -
  let ?d = "fst (drainInterval slabLevel True False (physicsState slabLevel 16 slabSim))"
  have nf: "status (climber slabSim) \<noteq> falling" by (simp add: slab_pre)
  have t: "tick slabLevel True False False 16 slabSim = update slabLevel True False False 16 slabSim"
    by (simp add: tick_def)
  have u: "climber (update slabLevel True False False 16 slabSim) = checkFall slabLevel False ?d"
    using update_airborne [OF nf slab_pre(2), of True False 16] slab_pre(1,3) by simp
  have "isAttached (leftHand_of (limbs ?d))"
    by (simp add: drainInterval_infinite slab_physics slab_limbs)
  then have "checkFall slabLevel False ?d = ?d" by (simp add: checkFall_hand)
  then have "status (climber (tick slabLevel True False False 16 slabSim)) = climbing"
    by (simp add: t u drainInterval_infinite physicsState_fields slab_pre)
  with slab_pre slab_stability [of False] show ?thesis by simp
qed

lemma placed_climber:
  "climber placedWhileFalling
     = fallingClimber\<lparr>limbs := allDetached\<lparr>leftFoot_of := Smearing \<lparr>x = 46, y = 50\<rparr>\<rparr>\<rparr>"
  by (simp add: placedWhileFalling_def handlePlaceLimb_def fallingClimber_def allDetached_def)

text \<open>
  C5 as the spec states it fails for the placement event: a foot placed while falling is
  stored and the status stays falling, so the state is falling with a limb that is not
  detached.
\<close>

theorem C5_falling_counterexample:
  "status fallingClimber = falling \<and> limbs fallingClimber = allDetached
   \<and> status (handlePlaceLimb flatLevel (Smearing \<lparr>x = 46, y = 50\<rparr>) leftFoot fallingClimber)
         = falling
   \<and> limbs (handlePlaceLimb flatLevel (Smearing \<lparr>x = 46, y = 50\<rparr>) leftFoot fallingClimber)
         \<noteq> allDetached"
  by (simp add: handlePlaceLimb_def fallingClimber_def allDetached_def)

text \<open>
  C5 at that state: the placement leaves the status falling with the foot stored, and the
  tick after it keeps falling and detaches the foot again.  And two placements on the finish
  holds of a level turn a falling climber into a topped one.
\<close>

theorem C5_falling_detached_after_tick_witness:
  "status (climber placedWhileFalling) = falling
   \<and> leftFoot_of (limbs (climber placedWhileFalling)) \<noteq> Detached
   \<and> status (climber (tick flatLevel False False False 16 placedWhileFalling)) = falling
   \<and> limbs (climber (tick flatLevel False False False 16 placedWhileFalling)) = allDetached
   \<and> status (handlePlaceLimb toppedLevel (Attached \<lparr>x = 53.25, y = 16\<rparr> ''f2'') rightHand
        (handlePlaceLimb toppedLevel (Attached \<lparr>x = 46.75, y = 16\<rparr> ''f1'') leftHand
           fallingClimber)) = topped"
proof -
  have z: "(0::real) < 16" by simp
  have f: "status (climber placedWhileFalling) = falling"
    by (simp add: placed_climber fallingClimber_def)
  have "status (climber (tick flatLevel False False False 16 placedWhileFalling)) = falling"
    using update_falling [OF f, of flatLevel False False False 16]
    by (simp add: tick_def fallingPhysics_def withVelocity_fields placed_climber
          fallingClimber_def flatLevel_def getGroundY_def Let_def)
  with C5_falling_detached_after_tick [OF z, where lvl = flatLevel and ist = False and rm = False
      and isUserDragging = False and sim = placedWhileFalling, THEN conjunct1]
  have a: "status (climber (tick flatLevel False False False 16 placedWhileFalling)) = falling"
    "limbs (climber (tick flatLevel False False False 16 placedWhileFalling)) = allDetached"
    by simp_all
  let ?one = "handlePlaceLimb toppedLevel (Attached \<lparr>x = 46.75, y = 16\<rparr> ''f1'') leftHand
                fallingClimber"
  have o: "status ?one = falling"
    "limbs ?one = allDetached\<lparr>leftHand_of := Attached \<lparr>x = 46.75, y = 16\<rparr> ''f1''\<rparr>"
    by (simp_all add: handlePlaceLimb_def fallingClimber_def allDetached_def Let_def)
  from C5_falling_detached_after_tick [OF z, where lvl = toppedLevel and prev = ?one and limb = rightHand
      and val = "Attached \<lparr>x = 53.25, y = 16\<rparr> ''f2''", THEN conjunct2, THEN conjunct1] o(1)
  have "status (handlePlaceLimb toppedLevel (Attached \<lparr>x = 53.25, y = 16\<rparr> ''f2'') rightHand ?one)
          = (if onFinish toppedLevel (leftHand_of (setLimb (limbs ?one) rightHand
                   (Attached \<lparr>x = 53.25, y = 16\<rparr> ''f2'')))
                \<and> onFinish toppedLevel (rightHand_of (setLimb (limbs ?one) rightHand
                   (Attached \<lparr>x = 53.25, y = 16\<rparr> ''f2'')))
             then topped else falling)"
    by blast
  also have "\<dots> = topped"
    unfolding o(2) by (simp add: onFinish_def toppedLevel_def findHold_def allDetached_def)
  finally have b: "status (handlePlaceLimb toppedLevel (Attached \<lparr>x = 53.25, y = 16\<rparr> ''f2'')
                      rightHand ?one) = topped" .
  from f a b show ?thesis by (simp add: placed_climber)
qed












end
